theory Spec2Isabelle
  imports Main "HOL-Library.Word"
begin

section \<open>JavaScript values and objects used by the extension host connection\<close>

text \<open>
  An environment object maps variable names to a string, to \<open>null\<close> or to
  \<open>undefined\<close> (the source's types \<open>string | null\<close> and \<open>string | undefined\<close>).
  It is an association list in insertion order with one entry per key, which is the
  order \<open>Object.keys\<close> enumerates string keys in. (JavaScript enumerates integer-like
  keys first; the functions below only search for the keys that equal \<open>PATH\<close> up to
  case and visit every key, so the position of integer-like keys does not matter.)
\<close>

datatype env_value = Str string | Null | Undefined

type_synonym env = "(string \<times> env_value) list"

definition obj_keys :: "env \<Rightarrow> string list" where
  "obj_keys e = map fst e"

text \<open>\<open>env[key]\<close>: reading a missing key gives \<open>undefined\<close>.\<close>

definition obj_get :: "env \<Rightarrow> string \<Rightarrow> env_value" where
  "obj_get e k = (case map_of e k of None \<Rightarrow> Undefined | Some v \<Rightarrow> v)"

text \<open>\<open>env[key] = value\<close>: an existing key keeps its position, a new key is appended.\<close>

fun obj_set :: "env \<Rightarrow> string \<Rightarrow> env_value \<Rightarrow> env" where
  "obj_set [] k v = [(k, v)]"
| "obj_set ((k', v') # rest) k v =
     (if k' = k then (k, v) # rest else (k', v') # obj_set rest k v)"

text \<open>\<open>delete env[key]\<close>.\<close>

definition obj_delete :: "env \<Rightarrow> string \<Rightarrow> env" where
  "obj_delete e k = filter (\<lambda>p. fst p \<noteq> k) e"

text \<open>The object spread \<open>{ ...target, ...source }\<close>: every entry of the source is assigned in turn.\<close>

definition spread :: "env \<Rightarrow> env \<Rightarrow> env" where
  "spread target source = fold (\<lambda>p acc. obj_set acc (fst p) (snd p)) source target"

text \<open>
  \<open>String.prototype.toLowerCase\<close> on the ASCII letters. No character outside ASCII
  lower-cases to one of the letters of \<open>path\<close>, the only key the source compares.
\<close>

definition lower_char :: "char \<Rightarrow> char" where
  "lower_char c =
     (case map_of (zip ''ABCDEFGHIJKLMNOPQRSTUVWXYZ'' ''abcdefghijklmnopqrstuvwxyz'') c of
        None \<Rightarrow> c
      | Some l \<Rightarrow> l)"

definition toLowerCase :: "string \<Rightarrow> string" where
  "toLowerCase s = map lower_char s"

text \<open>JavaScript truthiness of a value read from an environment object.\<close>

fun truthy :: "env_value \<Rightarrow> bool" where
  "truthy (Str s) = (s \<noteq> [])"
| "truthy Null = False"
| "truthy Undefined = False"

definition readCaseInsensitive :: "env \<Rightarrow> string \<Rightarrow> env_value" where
  "readCaseInsensitive e key =
     (let pathKeys = filter (\<lambda>k. toLowerCase k = toLowerCase key) (obj_keys e);
          pathKey = (case pathKeys of [] \<Rightarrow> key | k # _ \<Rightarrow> k)
      in obj_get e pathKey)"

definition setCaseInsensitive :: "env \<Rightarrow> string \<Rightarrow> string \<Rightarrow> env" where
  "setCaseInsensitive e key val =
     (let pathKeys = filter (\<lambda>k. toLowerCase k = toLowerCase key) (obj_keys e);
          pathKey = (case pathKeys of [] \<Rightarrow> key | k # _ \<Rightarrow> k)
      in obj_set e pathKey (Str val))"

text \<open>The loop of \<open>removeNulls\<close> runs over the keys the object had when the loop started.\<close>

definition removeNulls :: "env \<Rightarrow> env" where
  "removeNulls e =
     fold (\<lambda>key acc. if obj_get acc key = Null then obj_delete acc key else acc) (obj_keys e) e"

section \<open>What a Session does to the outside world\<close>

type_synonym bytes = "8 word list"

text \<open>
  A \<open>net.Socket\<close> is identified by a number. A Transport is a \<open>NodeSocket\<close> around a
  \<open>net.Socket\<close>, or a \<open>WebSocketNodeSocket\<close> around a \<open>NodeSocket\<close>.
\<close>

type_synonym net_socket = nat

datatype node_socket = NodeSocket (ns_socket: net_socket)

datatype websocket_node_socket =
  WebSocketNodeSocket (ws_socket: node_socket) (permessageDeflate: bool) (recordedInflateBytes: bytes)

datatype transport = Plain node_socket | Upgraded websocket_node_socket

record ConnectionData =
  socket :: transport
  initialDataChunk :: bytes

record IExtHostSocketMessage =
  msg_type :: string
  msg_initialDataChunk :: string
  msg_skipWebSocketFrames :: bool
  msg_permessageDeflate :: bool
  msg_inflateBytes :: string

datatype ipc_message =
  SocketMessage IExtHostSocketMessage
| ReduceGraceTimeMessage string

text \<open>A \<open>cp.ChildProcess\<close>: the object's identity and its \<open>pid\<close> (undefined when the spawn failed).\<close>

datatype child_process = ChildProcess (child_ref: nat) (child_pid: "nat option")

text \<open>What \<open>start\<close> can catch: a rejected or thrown step of its \<open>try\<close> block.\<close>

datatype thrown = NLSConfigurationRejected | ListenOnPipeRejected | ForkThrew

datatype effect =
  LogInfo string
| LogError string
| LogRemoteEntry string
| ConsoleError string
| ConsoleErrorObject thrown
| SocketDrain transport
| DrainCompleted transport
| SocketEnd transport
| ProcessSend child_process ipc_message "net_socket option"
| ProcessKill child_process
| OnCloseFire
| Listen string
| Fork string "string list" env "string list"
| SetExitInfo string "int option" "string option"
| PipeServerClose string
| PipeSockets net_socket ConnectionData
| SocketDispose transport
| SocketWrite transport bytes
| NetSocketDestroy net_socket
| NetSocketWrite net_socket bytes
| UncaughtTypeError
| UnhandledRejection

section \<open>buildUserEnvironment\<close>

record server_args =
  without_browser_env_var :: bool
  socket_path :: "string option"
  use_host_proxy :: bool

record environment_service =
  userDataPath :: string
  isBuilt :: bool
  appRoot :: string
  args :: server_args

text \<open>
  The ambient values of the server process: the platform constants of
  \<open>vs/base/common/platform\<close> and \<open>vs/base/common/path\<close>, \<open>process.env\<close>,
  \<open>process.pkg\<close>, the path of the bootstrap module, and
  \<open>removeDangerousEnvVariables\<close> of \<open>vs/base/common/processes\<close>.
\<close>

record host =
  isWindows :: bool
  delimiter :: string
  join :: "string list \<Rightarrow> string"
  processEnv :: env
  pkg :: bool
  bootstrapFork :: string
  removeDangerousEnvVariables :: "env \<Rightarrow> env"

text \<open>
  The two awaited results: the serialised NLS configuration (\<open>None\<close> when
  \<open>getNLSConfiguration\<close> rejects) and the resolved shell environment (\<open>None\<close> when
  \<open>getResolvedShellEnv\<close> throws, which the source catches and logs).
\<close>

definition string_of_bool :: "bool \<Rightarrow> string" where
  "string_of_bool b = (if b then ''true'' else ''false'')"

definition buildUserEnvironment ::
  "host \<Rightarrow> env option \<Rightarrow> bool \<Rightarrow> bool \<Rightarrow> environment_service \<Rightarrow> string option \<Rightarrow> env option
     \<Rightarrow> effect list \<times> env option" where
  "buildUserEnvironment h startParamsEnv withUserShellEnvironment isDebug environmentService
       nlsConfig shellEnv =
     (case nlsConfig of
        None \<Rightarrow> ([], None)
      | Some nls \<Rightarrow>
          (let overrides = (case startParamsEnv of None \<Rightarrow> [] | Some e \<Rightarrow> e);
               (log, userShellEnv) =
                 (if withUserShellEnvironment
                  then (case shellEnv of
                          Some e \<Rightarrow> ([], e)
                        | None \<Rightarrow>
                            ([LogError ''ExtensionHostConnection#buildUserEnvironment resolving shell environment failed''],
                             []))
                  else ([], []));
               env0 =
                 spread (spread (spread (spread [] (processEnv h)) userShellEnv)
                   [(''VSCODE_LOG_NATIVE'', Str (string_of_bool isDebug)),
                    (''VSCODE_AMD_ENTRYPOINT'', Str ''vs/workbench/api/node/extensionHostProcess''),
                    (''VSCODE_PIPE_LOGGING'', Str ''true''),
                    (''VSCODE_VERBOSE_LOGGING'', Str ''true''),
                    (''VSCODE_HANDLES_UNCAUGHT_ERRORS'', Str ''true''),
                    (''VSCODE_LOG_STACK'', Str ''false''),
                    (''VSCODE_NLS_CONFIG'', Str nls)])
                   overrides;
               binFolder =
                 (if isBuilt environmentService
                  then join h [appRoot environmentService, ''bin'']
                  else join h [appRoot environmentService, ''resources'', ''server'', ''bin-dev'']);
               remoteCliBinFolder = join h [binFolder, ''remote-cli''];
               PATH0 = readCaseInsensitive env0 ''PATH'';
               PATH1 =
                 (case PATH0 of
                    Str p \<Rightarrow> (if truthy PATH0 then remoteCliBinFolder @ delimiter h @ p
                              else remoteCliBinFolder)
                  | _ \<Rightarrow> remoteCliBinFolder);
               env1 = setCaseInsensitive env0 ''PATH'' PATH1;
               env2 =
                 (if \<not> without_browser_env_var (args environmentService)
                  then obj_set env1 ''BROWSER''
                         (Str (join h [binFolder, ''helpers'',
                                       if isWindows h then ''browser.cmd'' else ''browser.sh'']))
                  else env1)
           in (log, Some (removeNulls env2))))"

section \<open>ConnectionData\<close>

text \<open>
  \<open>Buffer.toString('base64')\<close> is Node's built-in RFC 4648 encoding of a byte
  sequence: three bytes give four characters of the alphabet, and a last group of
  one or two bytes is padded with \<open>=\<close>.
\<close>

definition base64_alphabet :: string where
  "base64_alphabet = ''ABCDEFGHIJKLMNOPQRSTUVWXYZabcdefghijklmnopqrstuvwxyz0123456789+/''"

definition base64_char :: "nat \<Rightarrow> char" where
  "base64_char n = base64_alphabet ! (n mod 64)"

fun base64 :: "bytes \<Rightarrow> string" where
  "base64 [] = []"
| "base64 [a] =
     (let n = unat a * 65536
      in [base64_char (n div 262144), base64_char (n div 4096), CHR ''='', CHR ''=''])"
| "base64 [a, b] =
     (let n = unat a * 65536 + unat b * 256
      in [base64_char (n div 262144), base64_char (n div 4096), base64_char (n div 64), CHR ''=''])"
| "base64 (a # b # c # rest) =
     (let n = unat a * 65536 + unat b * 256 + unat c
      in [base64_char (n div 262144), base64_char (n div 4096), base64_char (n div 64),
          base64_char n] @ base64 rest)"

definition toIExtHostSocketMessage :: "ConnectionData \<Rightarrow> IExtHostSocketMessage" where
  "toIExtHostSocketMessage cd =
     (let (skipWebSocketFrames, permessageDeflate', inflateBytes) =
            (case socket cd of
               Plain _ \<Rightarrow> (True, False, [])
             | Upgraded ws \<Rightarrow> (False, permessageDeflate ws, recordedInflateBytes ws))
      in \<lparr> msg_type = ''VSCODE_EXTHOST_IPC_SOCKET'',
           msg_initialDataChunk = base64 (initialDataChunk cd),
           msg_skipWebSocketFrames = skipWebSocketFrames,
           msg_permessageDeflate = permessageDeflate',
           msg_inflateBytes = base64 inflateBytes \<rparr>)"

section \<open>ExtensionHostConnection\<close>

text \<open>
  The fields of the class, followed by the callbacks the Session has registered: the
  child processes that carry the console, \<open>error\<close> and \<open>exit\<close> listeners of a
  \<open>start\<close> call, those that still carry its \<open>messageListener\<close>, the named pipe servers
  that carry its \<open>connection\<close> listener, and the calls of
  \<open>_sendSocketToExtensionHost\<close> that are suspended at \<open>await connectionData.socketDrain()\<close>.
\<close>

record session =
  reconnectionToken :: string
  environmentService :: environment_service
  canSendSocket :: bool
  disposed :: bool
  remoteAddress :: string
  extensionHostProcess :: "child_process option"
  connectionData :: "ConnectionData option"
  processListeners :: "child_process list"
  messageListeners :: "child_process list"
  pipeServers :: "string list"
  pendingSends :: "(child_process \<times> ConnectionData) list"

text \<open>Template literals print numbers in decimal, and \<open>null\<close> and \<open>undefined\<close> by name.\<close>

fun string_of_nat :: "nat \<Rightarrow> string" where
  "string_of_nat n =
     (if n < 10 then [char_of (48 + n)] else string_of_nat (n div 10) @ [char_of (48 + n mod 10)])"

declare string_of_nat.simps [simp del]

definition string_of_int :: "int \<Rightarrow> string" where
  "string_of_int i = (if i < 0 then CHR ''-'' # string_of_nat (nat (- i)) else string_of_nat (nat i))"

definition string_of_pid :: "child_process \<Rightarrow> string" where
  "string_of_pid c = (case child_pid c of None \<Rightarrow> ''undefined'' | Some n \<Rightarrow> string_of_nat n)"

definition logPrefix :: "session \<Rightarrow> string" where
  "logPrefix s =
     ''['' @ remoteAddress s @ ''][''  @ take 8 (reconnectionToken s) @ ''][ExtensionHostConnection] ''"

definition log :: "session \<Rightarrow> string \<Rightarrow> effect" where
  "log s str = LogInfo (logPrefix s @ str)"

definition logError :: "session \<Rightarrow> string \<Rightarrow> effect" where
  "logError s str = LogError (logPrefix s @ str)"

text \<open>The constructor. \<open>args['socket-path']\<close> is falsy when it is absent or the empty string.\<close>

definition socket_path_set :: "environment_service \<Rightarrow> bool" where
  "socket_path_set es = (case socket_path (args es) of None \<Rightarrow> False | Some p \<Rightarrow> p \<noteq> [])"

definition new_ExtensionHostConnection ::
  "host \<Rightarrow> string \<Rightarrow> string \<Rightarrow> transport \<Rightarrow> bytes \<Rightarrow> environment_service
     \<Rightarrow> session \<times> effect list" where
  "new_ExtensionHostConnection h token address sock chunk es =
     (let s = \<lparr> reconnectionToken = token,
                 environmentService = es,
                 canSendSocket = (\<not> isWindows h \<or> \<not> socket_path_set es),
                 disposed = False,
                 remoteAddress = address,
                 extensionHostProcess = None,
                 connectionData = Some \<lparr> socket = sock, initialDataChunk = chunk \<rparr>,
                 processListeners = [],
                 messageListeners = [],
                 pipeServers = [],
                 pendingSends = [] \<rparr>
      in (s, [log s ''New connection established.'']))"

text \<open>
  \<open>_sendSocketToExtensionHost\<close> is asynchronous. Its call runs up to the \<open>await\<close>: it
  calls \<open>socketDrain\<close> and suspends. With a null \<open>connectionData\<close> (the source passes
  \<open>this._connectionData!\<close>) the call throws inside the async function and its promise is
  rejected, which nothing handles.
\<close>

definition sendSocketToExtensionHost ::
  "session \<Rightarrow> child_process \<Rightarrow> ConnectionData option \<Rightarrow> session \<times> effect list" where
  "sendSocketToExtensionHost s p cdo =
     (case cdo of
        None \<Rightarrow> (s, [UnhandledRejection])
      | Some cd \<Rightarrow> (s\<lparr> pendingSends := pendingSends s @ [(p, cd)] \<rparr>, [SocketDrain (socket cd)]))"

definition underlying_socket :: "transport \<Rightarrow> net_socket" where
  "underlying_socket t =
     (case t of Plain n \<Rightarrow> ns_socket n | Upgraded w \<Rightarrow> ns_socket (ws_socket w))"

text \<open>
  The rest of \<open>_sendSocketToExtensionHost\<close>, run when the promise of \<open>socketDrain\<close> has
  resolved: the trace records that the drain has completed, then the message is built
  and sent with the \<open>net.Socket\<close>.
\<close>

definition sendSocketToExtensionHost_resume :: "child_process \<Rightarrow> ConnectionData \<Rightarrow> effect list" where
  "sendSocketToExtensionHost_resume p cd =
     [DrainCompleted (socket cd),
      ProcessSend p (SocketMessage (toIExtHostSocketMessage cd)) (Some (underlying_socket (socket cd)))]"

definition shortenReconnectionGraceTimeIfNecessary :: "session \<Rightarrow> session \<times> effect list" where
  "shortenReconnectionGraceTimeIfNecessary s =
     (case extensionHostProcess s of
        None \<Rightarrow> (s, [])
      | Some p \<Rightarrow> (s, [ProcessSend p (ReduceGraceTimeMessage ''VSCODE_EXTHOST_IPC_REDUCE_GRACE_TIME'') None]))"

definition acceptReconnection ::
  "session \<Rightarrow> string \<Rightarrow> transport \<Rightarrow> bytes \<Rightarrow> session \<times> effect list" where
  "acceptReconnection s address sock chunk =
     (let s1 = s\<lparr> remoteAddress := address \<rparr>;
          l = log s1 ''The client has reconnected.'';
          cd = \<lparr> socket = sock, initialDataChunk = chunk \<rparr>
      in case extensionHostProcess s1 of
           None \<Rightarrow> (s1\<lparr> connectionData := Some cd \<rparr>, [l])
         | Some p \<Rightarrow>
             (let (s2, out) = sendSocketToExtensionHost s1 p (Some cd) in (s2, l # out)))"

definition cleanResources :: "session \<Rightarrow> session \<times> effect list" where
  "cleanResources s =
     (if disposed s then (s, [])
      else
        (let ended = (case connectionData s of None \<Rightarrow> [] | Some cd \<Rightarrow> [SocketEnd (socket cd)]);
             killed = (case extensionHostProcess s of None \<Rightarrow> [] | Some p \<Rightarrow> [ProcessKill p])
         in (s\<lparr> disposed := True, connectionData := None, extensionHostProcess := None \<rparr>,
             ended @ killed @ [OnCloseFire])))"

text \<open>
  The parameters of \<open>start\<close> (\<open>IRemoteExtensionHostStartParams\<close>) and what the outside
  world answers during one call: the NLS configuration, the shell environment, the name
  \<open>createRandomIPCHandle\<close> returns, whether the pipe server gets to listen, and the child
  process \<open>cp.fork\<close> returns (\<open>None\<close> when it throws).
\<close>

record start_params =
  sp_port :: "nat option"
  sp_break :: bool
  sp_env :: "env option"
  sp_language :: string
  sp_debugId :: "string option"

record start_world =
  nlsConfig :: "string option"
  shellEnv :: "env option"
  pipeName :: string
  pipeListens :: bool
  forked :: "child_process option"

definition start_catch :: "thrown \<Rightarrow> effect list" where
  "start_catch error = [ConsoleError ''ExtensionHostConnection errored'', ConsoleErrorObject error]"

definition start :: "host \<Rightarrow> session \<Rightarrow> start_params \<Rightarrow> start_world \<Rightarrow> session \<times> effect list" where
  "start h s startParams w =
     (let execArgv =
            (case sp_port startParams of
               Some port \<Rightarrow>
                 (if port \<noteq> 0 \<and> \<not> pkg h
                  then [''--inspect'' @ (if sp_break startParams then ''-brk'' else [])
                          @ ''='' @ string_of_nat port]
                  else [])
             | None \<Rightarrow> []);
          isDebug = (case sp_debugId startParams of None \<Rightarrow> False | Some d \<Rightarrow> d \<noteq> []);
          (out0, built) =
            buildUserEnvironment h (sp_env startParams) True isDebug (environmentService s)
              (nlsConfig w) (shellEnv w)
      in case built of
           None \<Rightarrow> (s, out0 @ start_catch NLSConfigurationRejected)
         | Some env0 \<Rightarrow>
             (let env1 = removeDangerousEnvVariables h env0
              in if \<not> canSendSocket s \<and> \<not> pipeListens w
                 then (s, out0 @ [Listen (pipeName w)] @ start_catch ListenOnPipeRejected)
                 else
                   (let env2 =
                          (if canSendSocket s
                           then obj_set env1 ''VSCODE_EXTHOST_WILL_SEND_SOCKET'' (Str ''true'')
                           else obj_set env1 ''VSCODE_IPC_HOOK_EXTHOST'' (Str (pipeName w)));
                        out1 = (if canSendSocket s then out0 else out0 @ [Listen (pipeName w)]);
                        forkArgs =
                          [''--type=extensionHost'', ''--transformURIs'',
                           ''--useHostProxy=''
                             @ (if use_host_proxy (args (environmentService s)) then ''true'' else ''false'')];
                        out2 = out1 @ [Fork (bootstrapFork h) forkArgs env2 execArgv]
                    in case forked w of
                         None \<Rightarrow> (s, out2 @ start_catch ForkThrew)
                       | Some p \<Rightarrow>
                           (let s1 = s\<lparr> extensionHostProcess := Some p,
                                        processListeners := processListeners s @ [p] \<rparr>;
                                s2 =
                                  (if canSendSocket s
                                   then s1\<lparr> messageListeners := messageListeners s1 @ [p] \<rparr>
                                   else s1\<lparr> pipeServers := pipeServers s1 @ [pipeName w] \<rparr>)
                            in (s2,
                                out2 @ [log s2 (''<'' @ string_of_pid p
                                                 @ ''> Launched Extension Host Process.'')])))))"

text \<open>
  The listeners \<open>start\<close> registers on the child process \<open>p\<close>. Each closure belongs to the
  \<open>start\<close> call that forked \<open>p\<close>, but reads the Session's fields when it runs.
\<close>

definition onStdout :: "session \<Rightarrow> child_process \<Rightarrow> string \<Rightarrow> session \<times> effect list" where
  "onStdout s p e = (s, [log s (''<'' @ string_of_pid p @ ''> '' @ e)])"

definition onStderr :: "session \<Rightarrow> child_process \<Rightarrow> string \<Rightarrow> session \<times> effect list" where
  "onStderr s p e = (s, [log s (''<'' @ string_of_pid p @ ''><stderr> '' @ e)])"

definition onConsoleMessage :: "session \<Rightarrow> child_process \<Rightarrow> string \<Rightarrow> effect list" where
  "onConsoleMessage s p ty =
     (if ty = ''__$console'' then [LogRemoteEntry (logPrefix s @ ''<'' @ string_of_pid p @ ''>'')]
      else [])"

text \<open>
  \<open>messageListener\<close>: on the ready message it removes itself from the current
  \<open>_extensionHostProcess\<close> (a \<open>TypeError\<close> when that is null; nothing to remove when that is
  another process than the listener's own), sends the current \<open>_connectionData\<close> and
  clears it.
\<close>

definition messageListener :: "session \<Rightarrow> child_process \<Rightarrow> string \<Rightarrow> session \<times> effect list" where
  "messageListener s p ty =
     (if ty = ''VSCODE_EXTHOST_IPC_READY''
      then (case extensionHostProcess s of
              None \<Rightarrow> (s, [UncaughtTypeError])
            | Some q \<Rightarrow>
                (let s1 = (if q = p then s\<lparr> messageListeners := remove1 p (messageListeners s) \<rparr>
                           else s);
                     (s2, out) = sendSocketToExtensionHost s1 q (connectionData s1)
                 in (s2\<lparr> connectionData := None \<rparr>, out)))
      else (s, []))"

definition onMessage :: "session \<Rightarrow> child_process \<Rightarrow> string \<Rightarrow> session \<times> effect list" where
  "onMessage s p ty =
     (let out0 = (if p \<in> set (processListeners s) then onConsoleMessage s p ty else [])
      in if p \<in> set (messageListeners s)
         then (let (s1, out1) = messageListener s p ty in (s1, out0 @ out1))
         else (s, out0))"

definition onError :: "session \<Rightarrow> child_process \<Rightarrow> string \<Rightarrow> session \<times> effect list" where
  "onError s p err =
     (let (s1, out) = cleanResources s
      in (s1, [logError s (''<'' @ string_of_pid p @ ''> Extension Host Process had an error''),
               LogError err] @ out))"

definition string_of_code :: "int option \<Rightarrow> string" where
  "string_of_code c = (case c of None \<Rightarrow> ''null'' | Some i \<Rightarrow> string_of_int i)"

definition string_of_signal :: "string option \<Rightarrow> string" where
  "string_of_signal g = (case g of None \<Rightarrow> ''null'' | Some n \<Rightarrow> n)"

definition onExit :: "session \<Rightarrow> child_process \<Rightarrow> int option \<Rightarrow> string option \<Rightarrow> session \<times> effect list" where
  "onExit s p code signal =
     (let (s1, out) = cleanResources s
      in (s1, [SetExitInfo (reconnectionToken s) code signal,
               log s (''<'' @ string_of_pid p @ ''> Extension Host Process exited with code: ''
                        @ string_of_code code @ '', signal: '' @ string_of_signal signal @ ''.'')]
              @ out))"

text \<open>The \<open>connection\<close> listener of the named pipe server: the server is closed and the sockets are piped.\<close>

definition onConnection :: "session \<Rightarrow> string \<Rightarrow> net_socket \<Rightarrow> session \<times> effect list" where
  "onConnection s name sock =
     (s\<lparr> pipeServers := remove1 name (pipeServers s) \<rparr>,
      PipeServerClose name
        # (case connectionData s of None \<Rightarrow> [UnhandledRejection] | Some cd \<Rightarrow> [PipeSockets sock cd]))"

text \<open>
  What can happen to a Session: a call of one of its public methods, or an event that
  one of its registered callbacks answers. A callback that is not registered does not run.
\<close>

datatype event =
  Start start_params start_world
| AcceptReconnection string transport bytes
| ShortenReconnectionGraceTime
| ProcessStdout child_process string
| ProcessStderr child_process string
| ProcessMessage child_process string
| ProcessError child_process string
| ProcessExit child_process "int option" "string option"
| PipeConnection string net_socket
| DrainResolved nat
| DrainRejected nat

fun step :: "host \<Rightarrow> session \<Rightarrow> event \<Rightarrow> session \<times> effect list" where
  "step h s (Start startParams w) = start h s startParams w"
| "step h s (AcceptReconnection address sock chunk) = acceptReconnection s address sock chunk"
| "step h s ShortenReconnectionGraceTime = shortenReconnectionGraceTimeIfNecessary s"
| "step h s (ProcessStdout p e) = (if p \<in> set (processListeners s) then onStdout s p e else (s, []))"
| "step h s (ProcessStderr p e) = (if p \<in> set (processListeners s) then onStderr s p e else (s, []))"
| "step h s (ProcessMessage p ty) = onMessage s p ty"
| "step h s (ProcessError p err) = (if p \<in> set (processListeners s) then onError s p err else (s, []))"
| "step h s (ProcessExit p code signal) =
     (if p \<in> set (processListeners s) then onExit s p code signal else (s, []))"
| "step h s (PipeConnection name sock) =
     (if name \<in> set (pipeServers s) then onConnection s name sock else (s, []))"
| "step h s (DrainResolved i) =
     (if i < length (pendingSends s)
      then (s\<lparr> pendingSends := take i (pendingSends s) @ drop (Suc i) (pendingSends s) \<rparr>,
            sendSocketToExtensionHost_resume (fst (pendingSends s ! i)) (snd (pendingSends s ! i)))
      else (s, []))"
| "step h s (DrainRejected i) =
     (if i < length (pendingSends s)
      then (s\<lparr> pendingSends := take i (pendingSends s) @ drop (Suc i) (pendingSends s) \<rparr>,
            [UnhandledRejection])
      else (s, []))"

fun run :: "host \<Rightarrow> session \<Rightarrow> event list \<Rightarrow> session \<times> effect list" where
  "run h s [] = (s, [])"
| "run h s (e # es) =
     (let (s1, out1) = step h s e; (s2, out2) = run h s1 es in (s2, out1 @ out2))"

text \<open>\<open>n\<close> invocations of the cleanup routine in a row.\<close>

fun cleanResources_times :: "nat \<Rightarrow> session \<Rightarrow> session \<times> effect list" where
  "cleanResources_times 0 s = (s, [])"
| "cleanResources_times (Suc n) s =
     (let (s1, out1) = cleanResources s; (s2, out2) = cleanResources_times n s1
      in (s2, out1 @ out2))"

section \<open>Piping a Transport to the named pipe socket\<close>

text \<open>
  Modelled from the spec: \<open>DisposableStore\<close> and \<open>toDisposable\<close> of
  \<open>vs/base/common/lifecycle\<close>, and the subscriptions that \<open>onEnd\<close>, \<open>onClose\<close>,
  \<open>onData\<close> and \<open>Event.fromNodeEventEmitter\<close> return, are not among the sources. The spec
  has the teardown of the two ends of a relay wired together and run as one routine. A
  store keeps the disposables added to it; disposing the store disposes each of them in
  the order they were added and marks the store, and disposing a marked store does
  nothing. Disposing a subscription removes its listener.
\<close>

datatype subscription =
  OnEnd | OnClose | OnExtHostEnd | OnExtHostClose | OnExtHostError | OnData | OnExtHostData

datatype disposable = TransportDisposable | DestroyExtHostSocket | Subscription subscription

record relay =
  relay_connectionData :: ConnectionData
  relay_extHostSocket :: net_socket
  isDisposed :: bool
  toDispose :: "disposable list"
  subscriptions :: "subscription list"

definition store_add :: "relay \<Rightarrow> disposable \<Rightarrow> relay" where
  "store_add r d = (if isDisposed r then r else r\<lparr> toDispose := toDispose r @ [d] \<rparr>)"

fun dispose_item :: "disposable \<Rightarrow> relay \<Rightarrow> relay \<times> effect list" where
  "dispose_item TransportDisposable r = (r, [SocketDispose (socket (relay_connectionData r))])"
| "dispose_item DestroyExtHostSocket r = (r, [NetSocketDestroy (relay_extHostSocket r)])"
| "dispose_item (Subscription l) r = (r\<lparr> subscriptions := removeAll l (subscriptions r) \<rparr>, [])"

fun dispose_all :: "disposable list \<Rightarrow> relay \<Rightarrow> relay \<times> effect list" where
  "dispose_all [] r = (r, [])"
| "dispose_all (d # ds) r =
     (let (r1, out1) = dispose_item d r; (r2, out2) = dispose_all ds r1 in (r2, out1 @ out2))"

definition store_dispose :: "relay \<Rightarrow> relay \<times> effect list" where
  "store_dispose r =
     (if isDisposed r then (r, [])
      else (let (r1, out) = dispose_all (toDispose r) (r\<lparr> isDisposed := True \<rparr>)
            in (r1\<lparr> toDispose := [] \<rparr>, out)))"

text \<open>Registering a listener and adding its subscription to the store.\<close>

definition subscribe :: "relay \<Rightarrow> subscription \<Rightarrow> relay" where
  "subscribe r l = store_add (r\<lparr> subscriptions := subscriptions r @ [l] \<rparr>) (Subscription l)"

definition pipeSockets :: "net_socket \<Rightarrow> ConnectionData \<Rightarrow> relay \<times> effect list" where
  "pipeSockets extHostSocket cd =
     (let r0 = \<lparr> relay_connectionData = cd, relay_extHostSocket = extHostSocket,
                  isDisposed = False, toDispose = [], subscriptions = [] \<rparr>;
          r1 = store_add r0 TransportDisposable;
          r2 = store_add r1 DestroyExtHostSocket;
          r3 = subscribe r2 OnEnd;
          r4 = subscribe r3 OnClose;
          r5 = subscribe r4 OnExtHostEnd;
          r6 = subscribe r5 OnExtHostClose;
          r7 = subscribe r6 OnExtHostError;
          r8 = subscribe r7 OnData;
          r9 = subscribe r8 OnExtHostData
      in (r9, if length (initialDataChunk cd) > 0
              then [NetSocketWrite extHostSocket (initialDataChunk cd)] else []))"

definition stopAndCleanup :: "relay \<Rightarrow> relay \<times> effect list" where
  "stopAndCleanup r = store_dispose r"

text \<open>
  The events of the two ends of a relay. The Transport has an end, a close and a data
  event; the named pipe socket has an end, a close, an error and a data event.
\<close>

datatype relay_event =
  SocketEnded | SocketClosed | SocketData bytes
| ExtHostEnded | ExtHostClosed | ExtHostErrored | ExtHostData bytes

fun relay_step :: "relay \<Rightarrow> relay_event \<Rightarrow> relay \<times> effect list" where
  "relay_step r SocketEnded = (if OnEnd \<in> set (subscriptions r) then stopAndCleanup r else (r, []))"
| "relay_step r SocketClosed = (if OnClose \<in> set (subscriptions r) then stopAndCleanup r else (r, []))"
| "relay_step r ExtHostEnded =
     (if OnExtHostEnd \<in> set (subscriptions r) then stopAndCleanup r else (r, []))"
| "relay_step r ExtHostClosed =
     (if OnExtHostClose \<in> set (subscriptions r) then stopAndCleanup r else (r, []))"
| "relay_step r ExtHostErrored =
     (if OnExtHostError \<in> set (subscriptions r) then stopAndCleanup r else (r, []))"
| "relay_step r (SocketData b) =
     (if OnData \<in> set (subscriptions r) then (r, [NetSocketWrite (relay_extHostSocket r) b])
      else (r, []))"
| "relay_step r (ExtHostData b) =
     (if OnExtHostData \<in> set (subscriptions r)
      then (r, [SocketWrite (socket (relay_connectionData r)) b])
      else (r, []))"

fun relay_run :: "relay \<Rightarrow> relay_event list \<Rightarrow> relay \<times> effect list" where
  "relay_run r [] = (r, [])"
| "relay_run r (e # es) =
     (let (r1, out1) = relay_step r e; (r2, out2) = relay_run r1 es in (r2, out1 @ out2))"

section \<open>Reading a trace\<close>

definition closure_notifications :: "effect list \<Rightarrow> nat" where
  "closure_notifications out = count_list out OnCloseFire"

definition kill_attempts :: "effect list \<Rightarrow> child_process list" where
  "kill_attempts out = concat (map (\<lambda>e. case e of ProcessKill p \<Rightarrow> [p] | _ \<Rightarrow> []) out)"

text \<open>The Transports a trace ends or disposes.\<close>

definition transport_closes :: "effect list \<Rightarrow> transport list" where
  "transport_closes out =
     concat (map (\<lambda>e. case e of SocketEnd t \<Rightarrow> [t] | SocketDispose t \<Rightarrow> [t] | _ \<Rightarrow> []) out)"

text \<open>Everything a trace sends to a worker process or writes to a socket.\<close>

definition sends :: "effect list \<Rightarrow> effect list" where
  "sends out =
     filter (\<lambda>e. case e of ProcessSend p m n \<Rightarrow> True | SocketWrite t b \<Rightarrow> True
                   | NetSocketWrite n b \<Rightarrow> True | _ \<Rightarrow> False) out"

definition fork_envs :: "effect list \<Rightarrow> env list" where
  "fork_envs out = concat (map (\<lambda>e. case e of Fork m a v x \<Rightarrow> [v] | _ \<Rightarrow> []) out)"

definition listens :: "effect list \<Rightarrow> string list" where
  "listens out = concat (map (\<lambda>e. case e of Listen n \<Rightarrow> [n] | _ \<Rightarrow> []) out)"

section \<open>A concrete server\<close>

fun posix_join :: "string list \<Rightarrow> string" where
  "posix_join [] = []"
| "posix_join [x] = x"
| "posix_join (x # y # ys) = x @ ''/'' @ posix_join (y # ys)"

definition dropDebug :: "env \<Rightarrow> env" where
  "dropDebug e = obj_delete e ''DEBUG''"

definition linux_host :: host where
  "linux_host =
     \<lparr> isWindows = False, delimiter = '':'', join = posix_join,
       processEnv = [(''Path'', Str ''/usr/bin''), (''DEBUG'', Str ''1'')],
       pkg = False, bootstrapFork = ''/srv/out/bootstrap-fork.js'',
       removeDangerousEnvVariables = dropDebug \<rparr>"


definition server_environment :: environment_service where
  "server_environment =
     \<lparr> userDataPath = ''/data'', isBuilt = True, appRoot = ''/srv'',
       args = \<lparr> without_browser_env_var = False, socket_path = None, use_host_proxy = False \<rparr> \<rparr>"


definition transport0 :: transport where
  "transport0 = Plain (NodeSocket 0)"

definition transport1 :: transport where
  "transport1 = Upgraded (WebSocketNodeSocket (NodeSocket 1) True [1, 2])"

definition worker :: child_process where
  "worker = ChildProcess 0 (Some 4242)"

definition some_params :: start_params where
  "some_params =
     \<lparr> sp_port = None, sp_break = False, sp_env = Some [(''FOO'', Null), (''BAR'', Str ''1'')],
       sp_language = ''en'', sp_debugId = None \<rparr>"

definition good_world :: start_world where
  "good_world =
     \<lparr> nlsConfig = Some ''{}'', shellEnv = None, pipeName = ''vscode-ipc-1.sock'',
       pipeListens = True, forked = Some worker \<rparr>"

definition fork_fails :: start_world where
  "fork_fails = good_world\<lparr> forked := None \<rparr>"

definition session0 :: session where
  "session0 =
     fst (new_ExtensionHostConnection linux_host ''0123456789abcdef'' ''10.0.0.1'' transport0 [104, 105]
            server_environment)"

section \<open>The steps of a run\<close>

text \<open>
  The steps of a run, one by one: the Session before the step, the event it answers
  and the effects of answering it. Their effects in a row are the trace of \<open>run\<close>.
\<close>

fun steps :: "host \<Rightarrow> session \<Rightarrow> event list \<Rightarrow> (session \<times> event \<times> effect list) list" where
  "steps h s [] = []"
| "steps h s (ev # evs) = (s, ev, snd (step h s ev)) # steps h (fst (step h s ev)) evs"

section \<open>Traces\<close>

lemma closure_notifications_simps:
  "closure_notifications [] = 0"
  "closure_notifications (e # out) = (if e = OnCloseFire then 1 else 0) + closure_notifications out"
  "closure_notifications (out1 @ out2) = closure_notifications out1 + closure_notifications out2"
  by (induction out1) (simp_all add: closure_notifications_def)

lemma kill_attempts_simps:
  "kill_attempts [] = []"
  "kill_attempts (e # out) = (case e of ProcessKill p \<Rightarrow> [p] | _ \<Rightarrow> []) @ kill_attempts out"
  "kill_attempts (out1 @ out2) = kill_attempts out1 @ kill_attempts out2"
  by (simp_all add: kill_attempts_def)

lemma transport_closes_simps:
  "transport_closes [] = []"
  "transport_closes (e # out) =
     (case e of SocketEnd t \<Rightarrow> [t] | SocketDispose t \<Rightarrow> [t] | _ \<Rightarrow> []) @ transport_closes out"
  "transport_closes (out1 @ out2) = transport_closes out1 @ transport_closes out2"
  by (simp_all add: transport_closes_def)

lemma sends_simps:
  "sends [] = []"
  "sends (e # out) =
     (case e of ProcessSend p m n \<Rightarrow> [e] | SocketWrite t b \<Rightarrow> [e] | NetSocketWrite n b \<Rightarrow> [e]
      | _ \<Rightarrow> []) @ sends out"
  "sends (out1 @ out2) = sends out1 @ sends out2"
  by (simp_all add: sends_def split: effect.splits)

lemma fork_envs_simps:
  "fork_envs [] = []"
  "fork_envs (e # out) = (case e of Fork m a env x \<Rightarrow> [env] | _ \<Rightarrow> []) @ fork_envs out"
  "fork_envs (out1 @ out2) = fork_envs out1 @ fork_envs out2"
  by (simp_all add: fork_envs_def)

lemma listens_simps:
  "listens [] = []"
  "listens (e # out) = (case e of Listen n \<Rightarrow> [n] | _ \<Rightarrow> []) @ listens out"
  "listens (out1 @ out2) = listens out1 @ listens out2"
  by (simp_all add: listens_def)

lemmas trace_simps =
  closure_notifications_simps kill_attempts_simps transport_closes_simps sends_simps
  fork_envs_simps listens_simps

section \<open>Environment objects\<close>


lemma keys_obj_set:
  "obj_keys (obj_set e k v) = (if k \<in> set (obj_keys e) then obj_keys e else obj_keys e @ [k])"
proof (induction e)
  case Nil
  show ?case by (simp add: obj_keys_def)
next
  case (Cons p e)
  then show ?case by (cases p) (simp add: obj_keys_def)
qed

lemma obj_keys_set: "distinct (obj_keys e) \<Longrightarrow> distinct (obj_keys (obj_set e k v))"
  by (simp add: keys_obj_set)

lemma distinct_spread: "distinct (obj_keys t) \<Longrightarrow> distinct (obj_keys (spread t s))"
  unfolding spread_def by (induction s arbitrary: t) (auto simp: obj_keys_set)






lemma obj_delete_subset: "set (obj_delete e k) \<subseteq> set e"
  by (auto simp: obj_delete_def)


lemma fold_subset:
  "set (fold (\<lambda>key acc. if obj_get acc key = Null then obj_delete acc key else acc) ks e) \<subseteq> set e"
  (is "set (fold ?f ks e) \<subseteq> _")
proof (induction ks arbitrary: e)
  case Nil
  show ?case by simp
next
  case (Cons key ks)
  show ?case
  proof (cases "obj_get e key = Null")
    case True
    then have eq: "fold ?f (key # ks) e = fold ?f ks (obj_delete e key)" by simp
    show ?thesis unfolding eq
      using Cons[of "obj_delete e key"] obj_delete_subset[of e key] by (rule subset_trans)
  next
    case False
    with Cons[of e] show ?thesis by simp
  qed
qed


lemma removeNulls_subset: "set (removeNulls e) \<subseteq> set e"
  unfolding removeNulls_def by (rule fold_subset)




lemma distinct_setCaseInsensitive:
  "distinct (obj_keys e) \<Longrightarrow> distinct (obj_keys (setCaseInsensitive e key v))"
  by (simp add: setCaseInsensitive_def Let_def obj_keys_set)

lemma distinct_spread_Nil: "distinct (obj_keys (spread [] s))"
  by (rule distinct_spread) (simp add: obj_keys_def)

lemma distinct_obj_keys_Nil: "distinct (obj_keys [])"
  by (simp add: obj_keys_def)

lemma buildUserEnvironment_Some:
  "\<exists>e2. snd (buildUserEnvironment h startParamsEnv withShell isDebug es (Some n) shell)
           = Some (removeNulls e2) \<and> distinct (obj_keys e2)"
  apply (simp only: buildUserEnvironment_def Let_def split_def option.case snd_conv)
  apply (rule exI, rule conjI, rule refl)
  apply (simp add: obj_keys_set distinct_setCaseInsensitive distinct_spread distinct_obj_keys_Nil)
  done

lemma obj_get_obj_set: "obj_get (obj_set e k v) k = v"
  by (induction e) (auto simp: obj_get_def)

lemma buildUserEnvironment_None_iff:
  "(snd (buildUserEnvironment h startParamsEnv withShell isDebug es nls shell) = None) = (nls = None)"
proof (cases nls)
  case None
  then show ?thesis by (simp add: buildUserEnvironment_def)
next
  case (Some n)
  then show ?thesis
    using buildUserEnvironment_Some[of h startParamsEnv withShell isDebug es n shell] by auto
qed

lemma buildUserEnvironment_log:
  "fst (buildUserEnvironment h startParamsEnv withShell isDebug es nls shell) = [] \<or>
   fst (buildUserEnvironment h startParamsEnv withShell isDebug es nls shell) =
     [LogError ''ExtensionHostConnection#buildUserEnvironment resolving shell environment failed'']"
  by (cases nls; cases shell; cases withShell)
     (simp_all add: buildUserEnvironment_def Let_def split_def)

lemma buildUserEnvironment_quiet:
  "closure_notifications (fst (buildUserEnvironment h startParamsEnv withShell isDebug es nls shell)) = 0"
  "kill_attempts (fst (buildUserEnvironment h startParamsEnv withShell isDebug es nls shell)) = []"
  "transport_closes (fst (buildUserEnvironment h startParamsEnv withShell isDebug es nls shell)) = []"
  "sends (fst (buildUserEnvironment h startParamsEnv withShell isDebug es nls shell)) = []"
  "fork_envs (fst (buildUserEnvironment h startParamsEnv withShell isDebug es nls shell)) = []"
  "listens (fst (buildUserEnvironment h startParamsEnv withShell isDebug es nls shell)) = []"
  using buildUserEnvironment_log[of h startParamsEnv withShell isDebug es nls shell]
  by (auto simp: trace_simps)



text \<open>
  C6. The descriptor \<open>toIExtHostSocketMessage\<close> builds carries the fixed type tag and
  the base64 encoding of the initial chunk. For a \<open>NodeSocket\<close> it skips the WebSocket
  frames, has compression off and empty replay bytes; for a \<open>WebSocketNodeSocket\<close> it
  does not skip the frames, has the socket's \<open>permessageDeflate\<close> flag and the base64
  encoding of the socket's recorded inflate bytes.
\<close>

theorem toIExtHostSocketMessage_descriptor:
  "msg_type (toIExtHostSocketMessage cd) = ''VSCODE_EXTHOST_IPC_SOCKET'' \<and>
   msg_initialDataChunk (toIExtHostSocketMessage cd) = base64 (initialDataChunk cd) \<and>
   (case socket cd of
      Plain n \<Rightarrow>
        msg_skipWebSocketFrames (toIExtHostSocketMessage cd) = True \<and>
        msg_permessageDeflate (toIExtHostSocketMessage cd) = False \<and>
        msg_inflateBytes (toIExtHostSocketMessage cd) = []
    | Upgraded ws \<Rightarrow>
        msg_skipWebSocketFrames (toIExtHostSocketMessage cd) = False \<and>
        msg_permessageDeflate (toIExtHostSocketMessage cd) = permessageDeflate ws \<and>
        msg_inflateBytes (toIExtHostSocketMessage cd) = base64 (recordedInflateBytes ws))"
  by (cases "socket cd") (simp_all add: toIExtHostSocketMessage_def)

theorem toIExtHostSocketMessage_descriptor_witness:
  "toIExtHostSocketMessage \<lparr> socket = transport1, initialDataChunk = [104, 105] \<rparr> =
     \<lparr> msg_type = ''VSCODE_EXTHOST_IPC_SOCKET'', msg_initialDataChunk = ''aGk='',
       msg_skipWebSocketFrames = False, msg_permessageDeflate = True, msg_inflateBytes = ''AQI='' \<rparr> \<and>
   toIExtHostSocketMessage \<lparr> socket = transport0, initialDataChunk = [] \<rparr> =
     \<lparr> msg_type = ''VSCODE_EXTHOST_IPC_SOCKET'', msg_initialDataChunk = [],
       msg_skipWebSocketFrames = True, msg_permessageDeflate = False, msg_inflateBytes = [] \<rparr>"
  using toIExtHostSocketMessage_descriptor [of "\<lparr> socket = transport1, initialDataChunk = [104, 105] \<rparr>"]
    toIExtHostSocketMessage_descriptor [of "\<lparr> socket = transport0, initialDataChunk = [] \<rparr>"]
  by (simp add: transport0_def transport1_def toIExtHostSocketMessage_def base64_char_def
        base64_alphabet_def)

section \<open>start\<close>

lemma start_shape:
  fixes h s sp w
  defines "b \<equiv> buildUserEnvironment h (sp_env sp) True
                   (case sp_debugId sp of None \<Rightarrow> False | Some d \<Rightarrow> d \<noteq> [])
                   (environmentService s) (nlsConfig w) (shellEnv w)"
  shows "nlsConfig w = None \<Longrightarrow>
           start h s sp w = (s, fst b @ start_catch NLSConfigurationRejected)"
    and "nlsConfig w = Some n \<Longrightarrow> \<not> canSendSocket s \<Longrightarrow> \<not> pipeListens w \<Longrightarrow>
           start h s sp w = (s, fst b @ [Listen (pipeName w)] @ start_catch ListenOnPipeRejected)"
    and "nlsConfig w = Some n \<Longrightarrow> canSendSocket s \<Longrightarrow> forked w = None \<Longrightarrow>
           \<exists>m a e x. start h s sp w = (s, fst b @ [Fork m a e x] @ start_catch ForkThrew) \<and>
             obj_get e ''VSCODE_EXTHOST_WILL_SEND_SOCKET'' = Str ''true''"
    and "nlsConfig w = Some n \<Longrightarrow> \<not> canSendSocket s \<Longrightarrow> pipeListens w \<Longrightarrow> forked w = None \<Longrightarrow>
           \<exists>m a e x. start h s sp w
               = (s, fst b @ [Listen (pipeName w)] @ [Fork m a e x] @ start_catch ForkThrew) \<and>
             obj_get e ''VSCODE_IPC_HOOK_EXTHOST'' = Str (pipeName w)"
    and "nlsConfig w = Some n \<Longrightarrow> canSendSocket s \<Longrightarrow> forked w = Some p \<Longrightarrow>
           \<exists>m a e x l. start h s sp w =
             (s\<lparr> extensionHostProcess := Some p, processListeners := processListeners s @ [p],
                 messageListeners := messageListeners s @ [p] \<rparr>,
              fst b @ [Fork m a e x] @ [LogInfo l]) \<and>
             obj_get e ''VSCODE_EXTHOST_WILL_SEND_SOCKET'' = Str ''true''"
    and "nlsConfig w = Some n \<Longrightarrow> \<not> canSendSocket s \<Longrightarrow> pipeListens w \<Longrightarrow> forked w = Some p \<Longrightarrow>
           \<exists>m a e x l. start h s sp w =
             (s\<lparr> extensionHostProcess := Some p, processListeners := processListeners s @ [p],
                 pipeServers := pipeServers s @ [pipeName w] \<rparr>,
              fst b @ [Listen (pipeName w)] @ [Fork m a e x] @ [LogInfo l]) \<and>
             obj_get e ''VSCODE_IPC_HOOK_EXTHOST'' = Str (pipeName w)"
proof -
  note defs = start_def Let_def split_def b_def option.case_eq_if buildUserEnvironment_None_iff
    log_def obj_get_obj_set
  show "nlsConfig w = None \<Longrightarrow>
           start h s sp w = (s, fst b @ start_catch NLSConfigurationRejected)"
    by (simp add: defs split del: if_split)
  show "nlsConfig w = Some n \<Longrightarrow> \<not> canSendSocket s \<Longrightarrow> \<not> pipeListens w \<Longrightarrow>
           start h s sp w = (s, fst b @ [Listen (pipeName w)] @ start_catch ListenOnPipeRejected)"
    by (simp add: defs split del: if_split)
  show "nlsConfig w = Some n \<Longrightarrow> canSendSocket s \<Longrightarrow> forked w = None \<Longrightarrow>
           \<exists>m a e x. start h s sp w = (s, fst b @ [Fork m a e x] @ start_catch ForkThrew) \<and>
             obj_get e ''VSCODE_EXTHOST_WILL_SEND_SOCKET'' = Str ''true''"
    by (simp add: defs split del: if_split)
  show "nlsConfig w = Some n \<Longrightarrow> \<not> canSendSocket s \<Longrightarrow> pipeListens w \<Longrightarrow> forked w = None \<Longrightarrow>
           \<exists>m a e x. start h s sp w
               = (s, fst b @ [Listen (pipeName w)] @ [Fork m a e x] @ start_catch ForkThrew) \<and>
             obj_get e ''VSCODE_IPC_HOOK_EXTHOST'' = Str (pipeName w)"
    by (simp add: defs split del: if_split)
  show "nlsConfig w = Some n \<Longrightarrow> canSendSocket s \<Longrightarrow> forked w = Some p \<Longrightarrow>
           \<exists>m a e x l. start h s sp w =
             (s\<lparr> extensionHostProcess := Some p, processListeners := processListeners s @ [p],
                 messageListeners := messageListeners s @ [p] \<rparr>,
              fst b @ [Fork m a e x] @ [LogInfo l]) \<and>
             obj_get e ''VSCODE_EXTHOST_WILL_SEND_SOCKET'' = Str ''true''"
    by (simp add: defs split del: if_split)
  show "nlsConfig w = Some n \<Longrightarrow> \<not> canSendSocket s \<Longrightarrow> pipeListens w \<Longrightarrow> forked w = Some p \<Longrightarrow>
           \<exists>m a e x l. start h s sp w =
             (s\<lparr> extensionHostProcess := Some p, processListeners := processListeners s @ [p],
                 pipeServers := pipeServers s @ [pipeName w] \<rparr>,
              fst b @ [Listen (pipeName w)] @ [Fork m a e x] @ [LogInfo l]) \<and>
             obj_get e ''VSCODE_IPC_HOOK_EXTHOST'' = Str (pipeName w)"
    by (simp add: defs split del: if_split)
qed

lemma start_outcomes:
  obtains (nls) "nlsConfig w = None"
  | (listen) n where "nlsConfig w = Some n" "\<not> canSendSocket s" "\<not> pipeListens w"
  | (fork_direct) n where "nlsConfig w = Some n" "canSendSocket s" "forked w = None"
  | (fork_pipe) n where "nlsConfig w = Some n" "\<not> canSendSocket s" "pipeListens w" "forked w = None"
  | (direct) n p where "nlsConfig w = Some n" "canSendSocket s" "forked w = Some p"
  | (pipe) n p where "nlsConfig w = Some n" "\<not> canSendSocket s" "pipeListens w" "forked w = Some p"
  by (cases "nlsConfig w"; cases "forked w"; cases "canSendSocket s"; cases "pipeListens w") auto

lemma start_quiet:
  "closure_notifications (snd (start h s sp w)) = 0 \<and>
   kill_attempts (snd (start h s sp w)) = [] \<and>
   transport_closes (snd (start h s sp w)) = [] \<and>
   sends (snd (start h s sp w)) = []"
proof (cases rule: start_outcomes[where w=w and s=s])
  case nls
  then show ?thesis
    using start_shape(1)[where w=w and h=h and s=s and sp=sp]
    by (simp add: trace_simps buildUserEnvironment_quiet start_catch_def)
next
  case (listen n)
  then show ?thesis
    using start_shape(2)[where w=w and h=h and s=s and sp=sp and n=n]
    by (simp add: trace_simps buildUserEnvironment_quiet start_catch_def)
next
  case (fork_direct n)
  then show ?thesis
    using start_shape(3)[where w=w and h=h and s=s and sp=sp and n=n]
    by (auto simp: trace_simps buildUserEnvironment_quiet start_catch_def)
next
  case (fork_pipe n)
  then show ?thesis
    using start_shape(4)[where w=w and h=h and s=s and sp=sp and n=n]
    by (auto simp: trace_simps buildUserEnvironment_quiet start_catch_def)
next
  case (direct n p)
  then show ?thesis
    using start_shape(5)[where w=w and h=h and s=s and sp=sp and n=n and p=p]
    by (auto simp: trace_simps buildUserEnvironment_quiet)
next
  case (pipe n p)
  then show ?thesis
    using start_shape(6)[where w=w and h=h and s=s and sp=sp and n=n and p=p]
    by (auto simp: trace_simps buildUserEnvironment_quiet)
qed

lemma start_fields:
  "disposed (fst (start h s sp w)) = disposed s \<and>
   canSendSocket (fst (start h s sp w)) = canSendSocket s \<and>
   connectionData (fst (start h s sp w)) = connectionData s \<and>
   remoteAddress (fst (start h s sp w)) = remoteAddress s \<and>
   pendingSends (fst (start h s sp w)) = pendingSends s"
proof (cases rule: start_outcomes[where w=w and s=s])
  case nls
  then show ?thesis using start_shape(1)[where w=w and h=h and s=s and sp=sp] by simp
next
  case (listen n)
  then show ?thesis using start_shape(2)[where w=w and h=h and s=s and sp=sp and n=n] by simp
next
  case (fork_direct n)
  then show ?thesis using start_shape(3)[where w=w and h=h and s=s and sp=sp and n=n] by auto
next
  case (fork_pipe n)
  then show ?thesis using start_shape(4)[where w=w and h=h and s=s and sp=sp and n=n] by auto
next
  case (direct n p)
  then show ?thesis using start_shape(5)[where w=w and h=h and s=s and sp=sp and n=n and p=p] by auto
next
  case (pipe n p)
  then show ?thesis using start_shape(6)[where w=w and h=h and s=s and sp=sp and n=n and p=p] by auto
qed

lemma start_fork_throws: "forked w = None \<Longrightarrow> fst (start h s sp w) = s"
proof (cases rule: start_outcomes[where w=w and s=s])
  case nls
  then show ?thesis using start_shape(1)[where w=w and h=h and s=s and sp=sp] by simp
next
  case (listen n)
  then show ?thesis using start_shape(2)[where w=w and h=h and s=s and sp=sp and n=n] by simp
next
  case (fork_direct n)
  then show ?thesis using start_shape(3)[where w=w and h=h and s=s and sp=sp and n=n] by auto
next
  case (fork_pipe n)
  then show ?thesis using start_shape(4)[where w=w and h=h and s=s and sp=sp and n=n] by auto
next
  case (direct n p)
  assume "forked w = None"
  with direct show ?thesis by simp
next
  case (pipe n p)
  assume "forked w = None"
  with pipe show ?thesis by simp
qed

lemma start_direct:
  assumes "canSendSocket s" and "nlsConfig w = Some n"
  shows "listens (snd (start h s sp w)) = []"
    and "map (\<lambda>e. obj_get e ''VSCODE_EXTHOST_WILL_SEND_SOCKET'') (fork_envs (snd (start h s sp w)))
           = [Str ''true'']"
    and "pipeServers (fst (start h s sp w)) = pipeServers s"
    and "forked w = Some p \<Longrightarrow>
           fst (start h s sp w) =
             s\<lparr> extensionHostProcess := Some p, processListeners := processListeners s @ [p],
                messageListeners := messageListeners s @ [p] \<rparr>"
proof -
  have "listens (snd (start h s sp w)) = [] \<and>
        map (\<lambda>e. obj_get e ''VSCODE_EXTHOST_WILL_SEND_SOCKET'') (fork_envs (snd (start h s sp w)))
           = [Str ''true''] \<and>
        pipeServers (fst (start h s sp w)) = pipeServers s"
  proof (cases "forked w")
    case None
    then show ?thesis
      using assms start_shape(3)[where w=w and h=h and s=s and sp=sp and n=n]
      by (auto simp: trace_simps buildUserEnvironment_quiet start_catch_def)
  next
    case (Some q)
    then show ?thesis
      using assms start_shape(5)[where w=w and h=h and s=s and sp=sp and n=n and p=q]
      by (auto simp: trace_simps buildUserEnvironment_quiet)
  qed
  then show "listens (snd (start h s sp w)) = []"
    and "map (\<lambda>e. obj_get e ''VSCODE_EXTHOST_WILL_SEND_SOCKET'') (fork_envs (snd (start h s sp w)))
           = [Str ''true'']"
    and "pipeServers (fst (start h s sp w)) = pipeServers s"
    by simp_all
  show "fst (start h s sp w) =
             s\<lparr> extensionHostProcess := Some p, processListeners := processListeners s @ [p],
                messageListeners := messageListeners s @ [p] \<rparr>" if "forked w = Some p"
    using that assms start_shape(5)[where w=w and h=h and s=s and sp=sp and n=n and p=p]
    by auto
qed

lemma start_pipe:
  assumes "\<not> canSendSocket s" and "nlsConfig w = Some n" and "pipeListens w"
  shows "listens (snd (start h s sp w)) = [pipeName w]"
    and "map (\<lambda>e. obj_get e ''VSCODE_IPC_HOOK_EXTHOST'') (fork_envs (snd (start h s sp w)))
           = [Str (pipeName w)]"
    and "messageListeners (fst (start h s sp w)) = messageListeners s"
    and "forked w = Some p \<Longrightarrow>
           fst (start h s sp w) =
             s\<lparr> extensionHostProcess := Some p, processListeners := processListeners s @ [p],
                pipeServers := pipeServers s @ [pipeName w] \<rparr>"
proof -
  have "listens (snd (start h s sp w)) = [pipeName w] \<and>
        map (\<lambda>e. obj_get e ''VSCODE_IPC_HOOK_EXTHOST'') (fork_envs (snd (start h s sp w)))
           = [Str (pipeName w)] \<and>
        messageListeners (fst (start h s sp w)) = messageListeners s"
  proof (cases "forked w")
    case None
    then show ?thesis
      using assms start_shape(4)[where w=w and h=h and s=s and sp=sp and n=n]
      by (auto simp: trace_simps buildUserEnvironment_quiet start_catch_def)
  next
    case (Some q)
    then show ?thesis
      using assms start_shape(6)[where w=w and h=h and s=s and sp=sp and n=n and p=q]
      by (auto simp: trace_simps buildUserEnvironment_quiet)
  qed
  then show "listens (snd (start h s sp w)) = [pipeName w]"
    and "map (\<lambda>e. obj_get e ''VSCODE_IPC_HOOK_EXTHOST'') (fork_envs (snd (start h s sp w)))
           = [Str (pipeName w)]"
    and "messageListeners (fst (start h s sp w)) = messageListeners s"
    by simp_all
  show "fst (start h s sp w) =
             s\<lparr> extensionHostProcess := Some p, processListeners := processListeners s @ [p],
                pipeServers := pipeServers s @ [pipeName w] \<rparr>" if "forked w = Some p"
    using that assms start_shape(6)[where w=w and h=h and s=s and sp=sp and n=n and p=p]
    by auto
qed

section \<open>The Session\<close>

lemma cleanResources_disposed: "disposed s \<Longrightarrow> cleanResources s = (s, [])"
  by (simp add: cleanResources_def)

lemma disposed_cleanResources: "disposed (fst (cleanResources s))"
  by (simp add: cleanResources_def Let_def)

lemma cleanResources_times_disposed: "disposed s \<Longrightarrow> cleanResources_times n s = (s, [])"
  by (induction n) (simp_all add: cleanResources_disposed)

lemma cleanResources_times_Suc:
  "cleanResources_times (Suc n) s = cleanResources s"
proof -
  obtain s1 out1 where c: "cleanResources s = (s1, out1)" by (cases "cleanResources s")
  then have "disposed s1" using disposed_cleanResources[of s] by simp
  then show ?thesis using c by (simp add: cleanResources_times_disposed)
qed

lemma closure_notifications_cleanResources:
  "\<not> disposed s \<Longrightarrow> closure_notifications (snd (cleanResources s)) = 1"
  by (cases "connectionData s"; cases "extensionHostProcess s")
     (simp_all add: cleanResources_def closure_notifications_def Let_def)

lemma kill_attempts_cleanResources:
  "\<not> disposed s \<Longrightarrow>
   kill_attempts (snd (cleanResources s)) =
     (case extensionHostProcess s of None \<Rightarrow> [] | Some p \<Rightarrow> [p])"
  by (cases "connectionData s"; cases "extensionHostProcess s")
     (simp_all add: cleanResources_def kill_attempts_def Let_def)

lemmas handler_defs =
  acceptReconnection_def shortenReconnectionGraceTimeIfNecessary_def onStdout_def onStderr_def
  onMessage_def messageListener_def sendSocketToExtensionHost_def onError_def onExit_def
  onConnection_def cleanResources_def Let_def split_def


lemma step_disposed: "disposed s \<Longrightarrow> disposed (fst (step h s ev))"
  by (cases ev) (simp_all add: start_fields handler_defs split: option.splits)

lemma run_Cons:
  "run h s (ev # evs) =
     (fst (run h (fst (step h s ev)) evs),
      snd (step h s ev) @ snd (run h (fst (step h s ev)) evs))"
  by (simp add: split_def Let_def)

lemma run_append:
  "run h s (evs1 @ evs2) =
     (fst (run h (fst (run h s evs1)) evs2),
      snd (run h s evs1) @ snd (run h (fst (run h s evs1)) evs2))"
  by (induction evs1 arbitrary: s) (simp_all add: run_Cons del: run.simps(2))


lemma run_disposed: "disposed s \<Longrightarrow> disposed (fst (run h s evs))"
proof (induction evs arbitrary: s)
  case Nil
  then show ?case by simp
next
  case (Cons ev evs)
  from Cons.prems have "disposed (fst (step h s ev))" by (rule step_disposed)
  then have "disposed (fst (run h (fst (step h s ev)) evs))" by (rule Cons.IH)
  then show ?case by (simp add: run_Cons del: run.simps(2))
qed

lemma onError_cleans:
  assumes "\<not> disposed s"
  shows "disposed (fst (onError s p err))"
    and "extensionHostProcess (fst (onError s p err)) = None"
    and "connectionData (fst (onError s p err)) = None"
    and "closure_notifications (snd (onError s p err)) = 1"
    and "transport_closes (snd (onError s p err)) =
           (case connectionData s of None \<Rightarrow> [] | Some cd \<Rightarrow> [socket cd])"
    and "kill_attempts (snd (onError s p err)) =
           (case extensionHostProcess s of None \<Rightarrow> [] | Some q \<Rightarrow> [q])"
    and "sends (snd (onError s p err)) = []"
  using assms
  by (cases "connectionData s"; cases "extensionHostProcess s";
      simp add: onError_def cleanResources_def logError_def Let_def trace_simps)+

text \<open>
  C4. The cleanup routine is idempotent. On a Session that has not been cleaned up
  yet, any \<open>n \<ge> 1\<close> invocations in a row emit exactly one closure notification and
  make one kill attempt if a worker process reference was live (none otherwise):
  together they do exactly what the first invocation does, and an invocation after the
  first changes no state and has no effect.
\<close>

theorem cleanResources_idempotent:
  assumes "\<not> disposed s" and "1 \<le> n"
  shows "closure_notifications (snd (cleanResources_times n s)) = 1 \<and>
         kill_attempts (snd (cleanResources_times n s)) =
           (case extensionHostProcess s of None \<Rightarrow> [] | Some p \<Rightarrow> [p]) \<and>
         cleanResources_times n s = cleanResources s \<and>
         cleanResources (fst (cleanResources s)) = (fst (cleanResources s), [])"
proof -
  from assms(2) obtain m where n: "n = Suc m" by (cases n) simp_all
  have eq: "cleanResources_times n s = cleanResources s"
    unfolding n by (rule cleanResources_times_Suc)
  show ?thesis
    unfolding eq
    using closure_notifications_cleanResources[OF assms(1)] kill_attempts_cleanResources[OF assms(1)]
      cleanResources_disposed[OF disposed_cleanResources[of s]]
    by simp
qed

theorem cleanResources_idempotent_witness:
  "\<not> disposed (session0\<lparr> extensionHostProcess := Some worker \<rparr>) \<and> (1::nat) \<le> 3 \<and>
   closure_notifications (snd (cleanResources_times 3 (session0\<lparr> extensionHostProcess := Some worker \<rparr>))) = 1 \<and>
   kill_attempts (snd (cleanResources_times 3 (session0\<lparr> extensionHostProcess := Some worker \<rparr>))) = [worker] \<and>
   snd (cleanResources_times 3 (session0\<lparr> extensionHostProcess := Some worker \<rparr>)) =
     [SocketEnd transport0, ProcessKill worker, OnCloseFire]"
proof -
  have d: "\<not> disposed (session0\<lparr> extensionHostProcess := Some worker \<rparr>)"
    by (simp add: session0_def new_ExtensionHostConnection_def Let_def)
  have n: "(1::nat) \<le> 3" by simp
  have c: "snd (cleanResources (session0\<lparr> extensionHostProcess := Some worker \<rparr>)) =
             [SocketEnd transport0, ProcessKill worker, OnCloseFire]"
    by (simp add: session0_def new_ExtensionHostConnection_def Let_def cleanResources_def)
  show ?thesis
    using d cleanResources_idempotent[OF d n] c
    by (simp add: closure_notifications_def kill_attempts_def)
qed

text \<open>
  C9. \<open>shortenReconnectionGraceTimeIfNecessary\<close> does nothing when no worker process
  reference is live; when one is live it sends that worker exactly one
  reduce-grace-time message (without a handle) and leaves the Session unchanged.
\<close>

theorem shortenReconnectionGraceTime_effect:
  "(extensionHostProcess s = None \<longrightarrow> shortenReconnectionGraceTimeIfNecessary s = (s, [])) \<and>
   (\<forall>p. extensionHostProcess s = Some p \<longrightarrow>
      shortenReconnectionGraceTimeIfNecessary s =
        (s, [ProcessSend p (ReduceGraceTimeMessage ''VSCODE_EXTHOST_IPC_REDUCE_GRACE_TIME'') None]))"
  by (simp add: shortenReconnectionGraceTimeIfNecessary_def)

theorem shortenReconnectionGraceTime_effect_witness:
  "extensionHostProcess session0 = None \<and>
   shortenReconnectionGraceTimeIfNecessary session0 = (session0, []) \<and>
   extensionHostProcess (session0\<lparr> extensionHostProcess := Some worker \<rparr>) = Some worker \<and>
   shortenReconnectionGraceTimeIfNecessary (session0\<lparr> extensionHostProcess := Some worker \<rparr>) =
     (session0\<lparr> extensionHostProcess := Some worker \<rparr>,
      [ProcessSend worker (ReduceGraceTimeMessage ''VSCODE_EXTHOST_IPC_REDUCE_GRACE_TIME'') None])"
proof -
  have a: "extensionHostProcess session0 = None"
    by (simp add: session0_def new_ExtensionHostConnection_def Let_def)
  show ?thesis
    using a shortenReconnectionGraceTime_effect[of session0]
      shortenReconnectionGraceTime_effect[of "session0\<lparr> extensionHostProcess := Some worker \<rparr>"]
    by simp
qed

text \<open>
  Worker failure reaches the cleanup routine through the \<open>error\<close> and \<open>exit\<close>
  listeners of the child process: on a Session that is not disposed yet each of them
  disposes it, clears the worker and ConnectionData references, ends the pending
  Transport, kills the worker and emits one closure notification, and sends nothing.
\<close>

lemma worker_error_cleans_up:
  assumes "p \<in> set (processListeners s)" and "\<not> disposed s"
  shows "disposed (fst (step h s (ProcessError p err))) \<and>
         extensionHostProcess (fst (step h s (ProcessError p err))) = None \<and>
         connectionData (fst (step h s (ProcessError p err))) = None \<and>
         closure_notifications (snd (step h s (ProcessError p err))) = 1 \<and>
         transport_closes (snd (step h s (ProcessError p err))) =
           (case connectionData s of None \<Rightarrow> [] | Some cd \<Rightarrow> [socket cd]) \<and>
         kill_attempts (snd (step h s (ProcessError p err))) =
           (case extensionHostProcess s of None \<Rightarrow> [] | Some q \<Rightarrow> [q]) \<and>
         sends (snd (step h s (ProcessError p err))) = []"
  using assms onError_cleans[of s p err] by simp

lemma worker_error_after_start:
  "disposed (fst (run linux_host session0
                    [Start some_params good_world, ProcessError worker ''spawn ENOENT''])) \<and>
   closure_notifications (snd (run linux_host session0
                    [Start some_params good_world, ProcessError worker ''spawn ENOENT''])) = 1 \<and>
   transport_closes (snd (run linux_host session0
                    [Start some_params good_world, ProcessError worker ''spawn ENOENT''])) = [transport0] \<and>
   kill_attempts (snd (run linux_host session0
                    [Start some_params good_world, ProcessError worker ''spawn ENOENT''])) = [worker] \<and>
   sends (snd (run linux_host session0
                    [Start some_params good_world, ProcessError worker ''spawn ENOENT''])) = []"
proof -
  let ?s1 = "fst (start linux_host session0 some_params good_world)"
  have c: "canSendSocket session0" "\<not> disposed session0"
    "connectionData session0 = Some \<lparr> socket = transport0, initialDataChunk = [104, 105] \<rparr>"
    by (simp_all add: session0_def new_ExtensionHostConnection_def Let_def linux_host_def)
  have w: "nlsConfig good_world = Some ''{}''" "forked good_world = Some worker"
    by (simp_all add: good_world_def)
  have s1: "?s1 = session0\<lparr> extensionHostProcess := Some worker,
                            processListeners := processListeners session0 @ [worker],
                            messageListeners := messageListeners session0 @ [worker] \<rparr>"
    by (rule start_direct(4)[OF c(1) w(1) w(2)])
  have p: "worker \<in> set (processListeners ?s1)" "\<not> disposed ?s1"
    "connectionData ?s1 = Some \<lparr> socket = transport0, initialDataChunk = [104, 105] \<rparr>"
    "extensionHostProcess ?s1 = Some worker"
    unfolding s1 using c by simp_all
  show ?thesis
    using worker_error_cleans_up[OF p(1) p(2), of linux_host "''spawn ENOENT''"] p(3) p(4)
      start_quiet[of linux_host session0 some_params good_world]
    by (simp add: run_Cons trace_simps del: run.simps(2) step.simps(7))
qed

text \<open>
  C1. When the spawn step of \<open>start\<close> throws, the Session should run its cleanup
  routine as it does on the \<open>error\<close> and \<open>exit\<close> events of the worker. The catch block
  of \<open>start\<close> does not: with a \<open>cp.fork\<close> that throws, \<open>start\<close> leaves the Session
  undisposed, emits no closure notification and closes no Transport, and the pending
  ConnectionData stays in the Session.
\<close>

theorem start_fork_throws_no_cleanup:
  "disposed (fst (start linux_host session0 some_params fork_fails)) = False \<and>
   closure_notifications (snd (start linux_host session0 some_params fork_fails)) = 0 \<and>
   transport_closes (snd (start linux_host session0 some_params fork_fails)) = [] \<and>
   connectionData (fst (start linux_host session0 some_params fork_fails)) =
     Some \<lparr> socket = transport0, initialDataChunk = [104, 105] \<rparr>"
proof -
  have a: "forked fork_fails = None"
    by (simp add: fork_fails_def)
  have s: "fst (start linux_host session0 some_params fork_fails) = session0"
    using a by (rule start_fork_throws)
  show ?thesis
    unfolding s using start_quiet[of linux_host session0 some_params fork_fails]
    by (simp add: session0_def new_ExtensionHostConnection_def Let_def)
qed

lemma start_spawns:
  assumes "nlsConfig w \<noteq> None" and "canSendSocket s \<or> pipeListens w" and "forked w = Some p"
  shows "extensionHostProcess (fst (start h s sp w)) = Some p \<and>
         length (fork_envs (snd (start h s sp w))) = 1"
proof -
  from assms(1) obtain n where n: "nlsConfig w = Some n" by auto
  show ?thesis
  proof (cases "canSendSocket s")
    case True
    have "length (map (\<lambda>e. obj_get e ''VSCODE_EXTHOST_WILL_SEND_SOCKET'')
                    (fork_envs (snd (start h s sp w)))) = 1"
      unfolding start_direct(2)[OF True n] by simp
    then show ?thesis
      using start_direct(4)[OF True n assms(3), of h sp] by simp
  next
    case False
    with assms(2) have l: "pipeListens w" by simp
    have "length (map (\<lambda>e. obj_get e ''VSCODE_IPC_HOOK_EXTHOST'')
                    (fork_envs (snd (start h s sp w)))) = 1"
      unfolding start_pipe(2)[OF False n l] by simp
    then show ?thesis
      using start_pipe(4)[OF False n l assms(3), of h sp] by simp
  qed
qed

text \<open>
  C2, as the code has it. Once cleanup has set the disposed flag, no method or event
  of the Session unsets it, and a further cleanup call changes nothing and has no
  effect. Only the cleanup routine looks at the flag; the other operations do on a
  disposed Session what they do on any other. \<open>shortenReconnectionGraceTimeIfNecessary\<close>
  does nothing exactly while no worker reference is live, which holds right after
  cleanup (cleanup clears the reference), and sends the reduce-grace-time message to a
  worker that a later \<open>start\<close> has spawned. \<open>acceptReconnection\<close> stores the new remote
  address, and stores the new ConnectionData when no worker is live or starts its
  handoff to the live worker. \<open>start\<close>, when the environment is built, the pipe (where
  one is needed) listens and the fork succeeds, spawns a worker and keeps its reference.
\<close>

theorem disposed_is_permanent:
  "(disposed s \<longrightarrow> disposed (fst (run h s evs))) \<and>
   (disposed s \<longrightarrow> cleanResources s = (s, [])) \<and>
   (\<not> disposed s \<longrightarrow>
      disposed (fst (cleanResources s)) \<and>
      extensionHostProcess (fst (cleanResources s)) = None \<and>
      shortenReconnectionGraceTimeIfNecessary (fst (cleanResources s)) = (fst (cleanResources s), [])) \<and>
   (disposed s \<and> extensionHostProcess s = None \<longrightarrow>
      shortenReconnectionGraceTimeIfNecessary s = (s, [])) \<and>
   (disposed s \<and> extensionHostProcess s = Some q \<longrightarrow>
      shortenReconnectionGraceTimeIfNecessary s =
        (s, [ProcessSend q (ReduceGraceTimeMessage ''VSCODE_EXTHOST_IPC_REDUCE_GRACE_TIME'') None])) \<and>
   (disposed s \<and> extensionHostProcess s = None \<longrightarrow>
      disposed (fst (acceptReconnection s address sock chunk)) \<and>
      remoteAddress (fst (acceptReconnection s address sock chunk)) = address \<and>
      connectionData (fst (acceptReconnection s address sock chunk)) =
        Some \<lparr> socket = sock, initialDataChunk = chunk \<rparr>) \<and>
   (disposed s \<and> extensionHostProcess s = Some q \<longrightarrow>
      disposed (fst (acceptReconnection s address sock chunk)) \<and>
      remoteAddress (fst (acceptReconnection s address sock chunk)) = address \<and>
      pendingSends (fst (acceptReconnection s address sock chunk)) =
        pendingSends s @ [(q, \<lparr> socket = sock, initialDataChunk = chunk \<rparr>)] \<and>
      SocketDrain sock \<in> set (snd (acceptReconnection s address sock chunk))) \<and>
   (disposed s \<and> nlsConfig w \<noteq> None \<and> (canSendSocket s \<or> pipeListens w) \<and> forked w = Some p \<longrightarrow>
      disposed (fst (start h s sp w)) \<and>
      extensionHostProcess (fst (start h s sp w)) = Some p \<and>
      length (fork_envs (snd (start h s sp w))) = 1)"
proof (intro conjI impI)
  show "disposed (fst (run h s evs))" if "disposed s"
    using that by (rule run_disposed)
  show "cleanResources s = (s, [])" if "disposed s"
    using that by (rule cleanResources_disposed)
  show "disposed (fst (cleanResources s))"
    by (rule disposed_cleanResources)
  show "extensionHostProcess (fst (cleanResources s)) = None" if "\<not> disposed s"
    using that by (simp add: cleanResources_def Let_def)
  show "shortenReconnectionGraceTimeIfNecessary (fst (cleanResources s)) = (fst (cleanResources s), [])"
    if "\<not> disposed s"
    using that
    by (simp add: cleanResources_def shortenReconnectionGraceTimeIfNecessary_def Let_def)
  show "shortenReconnectionGraceTimeIfNecessary s = (s, [])"
    if "disposed s \<and> extensionHostProcess s = None"
    using that by (simp add: shortenReconnectionGraceTimeIfNecessary_def)
  show "shortenReconnectionGraceTimeIfNecessary s =
          (s, [ProcessSend q (ReduceGraceTimeMessage ''VSCODE_EXTHOST_IPC_REDUCE_GRACE_TIME'') None])"
    if "disposed s \<and> extensionHostProcess s = Some q"
    using that by (simp add: shortenReconnectionGraceTimeIfNecessary_def)
next
  assume a: "disposed s \<and> extensionHostProcess s = None"
  then show "disposed (fst (acceptReconnection s address sock chunk))"
    and "remoteAddress (fst (acceptReconnection s address sock chunk)) = address"
    and "connectionData (fst (acceptReconnection s address sock chunk)) =
        Some \<lparr> socket = sock, initialDataChunk = chunk \<rparr>"
    by (simp_all add: acceptReconnection_def Let_def)
next
  assume a: "disposed s \<and> extensionHostProcess s = Some q"
  then show "disposed (fst (acceptReconnection s address sock chunk))"
    and "remoteAddress (fst (acceptReconnection s address sock chunk)) = address"
    and "pendingSends (fst (acceptReconnection s address sock chunk)) =
        pendingSends s @ [(q, \<lparr> socket = sock, initialDataChunk = chunk \<rparr>)]"
    and "SocketDrain sock \<in> set (snd (acceptReconnection s address sock chunk))"
    by (simp_all add: acceptReconnection_def sendSocketToExtensionHost_def Let_def)
next
  assume a: "disposed s \<and> nlsConfig w \<noteq> None \<and> (canSendSocket s \<or> pipeListens w) \<and> forked w = Some p"
  then have n: "nlsConfig w \<noteq> None" and c: "canSendSocket s \<or> pipeListens w"
    and f: "forked w = Some p" and d: "disposed s" by simp_all
  show "disposed (fst (start h s sp w))"
    using d start_fields[of h s sp w] by simp
  show "extensionHostProcess (fst (start h s sp w)) = Some p"
    and "length (fork_envs (snd (start h s sp w))) = 1"
    using start_spawns[OF n c f, of h sp] by simp_all
qed

theorem disposed_is_permanent_witness:
  "\<not> disposed session0 \<and>
   disposed (fst (cleanResources session0)) \<and>
   extensionHostProcess (fst (cleanResources session0)) = None \<and>
   canSendSocket (fst (cleanResources session0)) \<and>
   nlsConfig good_world \<noteq> None \<and> forked good_world = Some worker \<and>
   disposed (fst (run linux_host (fst (cleanResources session0))
                   [AcceptReconnection ''10.0.0.2'' transport1 [7], Start some_params good_world])) \<and>
   cleanResources (fst (cleanResources session0)) = (fst (cleanResources session0), []) \<and>
   shortenReconnectionGraceTimeIfNecessary (fst (cleanResources session0)) =
     (fst (cleanResources session0), []) \<and>
   connectionData (fst (acceptReconnection (fst (cleanResources session0)) ''10.0.0.2'' transport1 [7])) =
     Some \<lparr> socket = transport1, initialDataChunk = [7] \<rparr> \<and>
   extensionHostProcess (fst (start linux_host (fst (cleanResources session0)) some_params good_world)) =
     Some worker \<and>
   disposed (fst (start linux_host (fst (cleanResources session0)) some_params good_world)) \<and>
   shortenReconnectionGraceTimeIfNecessary
     (fst (start linux_host (fst (cleanResources session0)) some_params good_world)) =
     (fst (start linux_host (fst (cleanResources session0)) some_params good_world),
      [ProcessSend worker (ReduceGraceTimeMessage ''VSCODE_EXTHOST_IPC_REDUCE_GRACE_TIME'') None]) \<and>
   pendingSends (fst (acceptReconnection
       (fst (start linux_host (fst (cleanResources session0)) some_params good_world))
       ''10.0.0.2'' transport1 [7])) =
     pendingSends (fst (start linux_host (fst (cleanResources session0)) some_params good_world))
       @ [(worker, \<lparr> socket = transport1, initialDataChunk = [7] \<rparr>)]"
proof -
  let ?s1 = "fst (cleanResources session0)"
  let ?s2 = "fst (start linux_host ?s1 some_params good_world)"
  have a: "\<not> disposed session0"
    by (simp add: session0_def new_ExtensionHostConnection_def Let_def)
  have b: "disposed ?s1" "extensionHostProcess ?s1 = None" "canSendSocket ?s1"
    by (simp_all add: session0_def new_ExtensionHostConnection_def cleanResources_def Let_def
          linux_host_def)
  have c: "nlsConfig good_world \<noteq> None" "forked good_world = Some worker"
    by (simp_all add: good_world_def)
  note first = disposed_is_permanent[where s = ?s1 and h = linux_host
        and evs = "[AcceptReconnection ''10.0.0.2'' transport1 [7], Start some_params good_world]"
        and address = "''10.0.0.2''" and sock = transport1 and chunk = "[7]"
        and w = good_world and p = worker and sp = some_params]
  from first b c have d: "disposed ?s2" "extensionHostProcess ?s2 = Some worker"
    by simp_all
  show ?thesis
    using a b c d first
      disposed_is_permanent[where s = session0]
      disposed_is_permanent[where s = ?s2 and q = worker
        and address = "''10.0.0.2''" and sock = transport1 and chunk = "[7]"]
    by simp
qed

text \<open>
  C2 as stated fails: after cleanup, \<open>acceptReconnection\<close> is not a no-op. It changes
  the remote address and stores the new ConnectionData in the disposed Session.
\<close>

theorem disposed_is_permanent_counterexample:
  "disposed (fst (cleanResources session0)) \<and>
   connectionData (fst (cleanResources session0)) = None \<and>
   remoteAddress (fst (cleanResources session0)) = ''10.0.0.1'' \<and>
   connectionData (fst (acceptReconnection (fst (cleanResources session0)) ''10.0.0.2'' transport1 [7])) =
     Some \<lparr> socket = transport1, initialDataChunk = [7] \<rparr> \<and>
   remoteAddress (fst (acceptReconnection (fst (cleanResources session0)) ''10.0.0.2'' transport1 [7])) =
     ''10.0.0.2''"
  by (simp add: session0_def new_ExtensionHostConnection_def cleanResources_def
        acceptReconnection_def Let_def)





section \<open>The relay\<close>

lemma store_add_live:
  "\<not> isDisposed r \<Longrightarrow> store_add r d = r\<lparr> toDispose := toDispose r @ [d] \<rparr>"
  by (simp add: store_add_def)

lemma subscribe_live:
  "\<not> isDisposed r \<Longrightarrow>
   subscribe r l =
     r\<lparr> subscriptions := subscriptions r @ [l], toDispose := toDispose r @ [Subscription l] \<rparr>"
  by (simp add: subscribe_def store_add_def)

lemma pipeSockets_relay:
  "fst (pipeSockets ext cd) =
     \<lparr> relay_connectionData = cd, relay_extHostSocket = ext, isDisposed = False,
       toDispose =
         [TransportDisposable, DestroyExtHostSocket, Subscription OnEnd, Subscription OnClose,
          Subscription OnExtHostEnd, Subscription OnExtHostClose, Subscription OnExtHostError,
          Subscription OnData, Subscription OnExtHostData],
       subscriptions =
         [OnEnd, OnClose, OnExtHostEnd, OnExtHostClose, OnExtHostError, OnData, OnExtHostData] \<rparr>"
  by (simp add: pipeSockets_def store_add_live subscribe_live Let_def)

lemma stopAndCleanup_relay:
  "stopAndCleanup (fst (pipeSockets ext cd)) =
     (\<lparr> relay_connectionData = cd, relay_extHostSocket = ext, isDisposed = True,
        toDispose = [], subscriptions = [] \<rparr>,
      [SocketDispose (socket cd), NetSocketDestroy ext])"
  by (simp add: pipeSockets_relay stopAndCleanup_def store_dispose_def Let_def)

lemma relay_step_torn_down:
  "subscriptions r = [] \<Longrightarrow> relay_step r ev = (r, [])"
  by (cases ev) simp_all

lemma relay_run_torn_down:
  "subscriptions r = [] \<Longrightarrow> relay_run r evs = (r, [])"
  by (induction evs) (simp_all add: relay_step_torn_down)

lemma relay_step_live:
  "relay_step (fst (pipeSockets ext cd)) ev =
     (case ev of
        SocketData b \<Rightarrow> (fst (pipeSockets ext cd), [NetSocketWrite ext b])
      | ExtHostData b \<Rightarrow> (fst (pipeSockets ext cd), [SocketWrite (socket cd) b])
      | _ \<Rightarrow> stopAndCleanup (fst (pipeSockets ext cd)))"
  by (cases ev) (simp_all add: pipeSockets_relay)

lemma relay_run_live:
  "length (transport_closes (snd (relay_run (fst (pipeSockets ext cd)) evs))) \<le> 1 \<and>
   count_list (snd (relay_run (fst (pipeSockets ext cd)) evs)) (NetSocketDestroy ext) \<le> 1"
proof (induction evs)
  case Nil
  show ?case by (simp add: trace_simps)
next
  case (Cons ev evs)
  show ?case
  proof (cases ev)
    case (SocketData b)
    with Cons show ?thesis
      by (simp add: relay_step_live split_def Let_def trace_simps del: relay_step.simps)
  next
    case (ExtHostData b)
    with Cons show ?thesis
      by (simp add: relay_step_live split_def Let_def trace_simps del: relay_step.simps)
  qed (simp_all add: relay_step_live stopAndCleanup_relay relay_run_torn_down trace_simps Let_def
        del: relay_step.simps)
qed

text \<open>
  C7. In the relay \<open>_pipeSockets\<close> sets up, an end or close event of the client
  Transport and an end, close or error event of the named pipe socket each tear down
  both sides: the Transport is disposed and the pipe socket is destroyed. Over any
  sequence of events of the two ends this teardown happens at most once.
\<close>

theorem relay_teardown_symmetric_once:
  "(ev \<in> {SocketEnded, SocketClosed, ExtHostEnded, ExtHostClosed, ExtHostErrored} \<longrightarrow>
      snd (relay_step (fst (pipeSockets ext cd)) ev) =
        [SocketDispose (socket cd), NetSocketDestroy ext]) \<and>
   length (transport_closes (snd (relay_run (fst (pipeSockets ext cd)) evs))) \<le> 1 \<and>
   count_list (snd (relay_run (fst (pipeSockets ext cd)) evs)) (NetSocketDestroy ext) \<le> 1"
  using relay_run_live[of ext cd evs]
  by (auto simp: relay_step_live stopAndCleanup_relay simp del: relay_step.simps)

theorem relay_teardown_symmetric_once_witness:
  "ExtHostErrored \<in> {SocketEnded, SocketClosed, ExtHostEnded, ExtHostClosed, ExtHostErrored} \<and>
   snd (relay_step (fst (pipeSockets 9 \<lparr> socket = transport0, initialDataChunk = [1] \<rparr>)) ExtHostErrored) =
     [SocketDispose transport0, NetSocketDestroy 9] \<and>
   snd (relay_run (fst (pipeSockets 9 \<lparr> socket = transport0, initialDataChunk = [1] \<rparr>))
          [SocketData [2], ExtHostErrored, ExtHostClosed, SocketClosed, SocketData [3]]) =
     [NetSocketWrite 9 [2], SocketDispose transport0, NetSocketDestroy 9] \<and>
   length (transport_closes (snd (relay_run (fst (pipeSockets 9 \<lparr> socket = transport0, initialDataChunk = [1] \<rparr>))
          [SocketData [2], ExtHostErrored, ExtHostClosed, SocketClosed, SocketData [3]]))) \<le> 1"
proof -
  have r: "snd (relay_run (fst (pipeSockets 9 \<lparr> socket = transport0, initialDataChunk = [1] \<rparr>))
          [SocketData [2], ExtHostErrored, ExtHostClosed, SocketClosed, SocketData [3]]) =
     [NetSocketWrite 9 [2], SocketDispose transport0, NetSocketDestroy 9]"
    by (simp add: pipeSockets_relay stopAndCleanup_def store_dispose_def Let_def)
  show ?thesis
    using r
      relay_teardown_symmetric_once[where ev = ExtHostErrored and ext = 9
        and cd = "\<lparr> socket = transport0, initialDataChunk = [1] \<rparr>"
        and evs = "[SocketData [2], ExtHostErrored, ExtHostClosed, SocketClosed, SocketData [3]]"]
    by simp
qed

section \<open>Handoffs in a run\<close>

lemma sends_Nil_no_ProcessSend: "sends out = [] \<Longrightarrow> ProcessSend p m n \<notin> set out"
  by (auto simp: sends_def filter_empty_conv)

lemma ready_then_drain:
  assumes "extensionHostProcess s = Some p" and "p \<in> set (messageListeners s)"
    and "connectionData s = Some cd" and "pendingSends s = []"
  shows "snd (run h s [ProcessMessage p ''VSCODE_EXTHOST_IPC_READY'', DrainResolved 0]) =
           [SocketDrain (socket cd), DrainCompleted (socket cd),
            ProcessSend p (SocketMessage (toIExtHostSocketMessage cd))
              (Some (underlying_socket (socket cd)))]"
  using assms
  by (simp add: handler_defs onConsoleMessage_def sendSocketToExtensionHost_resume_def)

lemma run_reconnections:
  assumes "extensionHostProcess s = None"
  shows "fst (run h s (map (\<lambda>(a, t, c). AcceptReconnection a t c) rs)) =
           s\<lparr> remoteAddress := last (remoteAddress s # map fst rs),
              connectionData :=
                last (connectionData s
                        # map (\<lambda>(a, t, c). Some \<lparr> socket = t, initialDataChunk = c \<rparr>) rs) \<rparr> \<and>
         sends (snd (run h s (map (\<lambda>(a, t, c). AcceptReconnection a t c) rs))) = [] \<and>
         transport_closes (snd (run h s (map (\<lambda>(a, t, c). AcceptReconnection a t c) rs))) = []"
  using assms
proof (induction rs arbitrary: s)
  case Nil
  then show ?case by (simp add: trace_simps)
next
  case (Cons r rs)
  obtain a t c where r: "r = (a, t, c)" by (cases r)
  let ?s1 = "s\<lparr> remoteAddress := a, connectionData := Some \<lparr> socket = t, initialDataChunk = c \<rparr> \<rparr>"
  have st: "acceptReconnection s a t c =
              (?s1, [log (s\<lparr> remoteAddress := a \<rparr>) ''The client has reconnected.''])"
    using Cons.prems by (simp add: acceptReconnection_def Let_def)
  have "extensionHostProcess ?s1 = None" using Cons.prems by simp
  from Cons.IH[OF this] show ?case
    unfolding r
    by (simp add: run_Cons st trace_simps log_def last_ConsR del: run.simps(2) last.simps)
qed

lemma last_Some_map:
  "last (Some x # map (\<lambda>(a, t, c). Some (f a t c)) rs) = Some (last (x # map (\<lambda>(a, t, c). f a t c) rs))"
  by (induction rs arbitrary: x) (simp_all add: split_def)

lemma reconnections_then_ready:
  assumes "extensionHostProcess s = None" and "connectionData s = Some cd0"
    and "pendingSends s = []" and "canSendSocket s"
    and "nlsConfig w = Some n" and "forked w = Some p"
  shows "sends (snd (run h s (map (\<lambda>(a, t, c). AcceptReconnection a t c) rs
                            @ [Start sp w, ProcessMessage p ''VSCODE_EXTHOST_IPC_READY'',
                               DrainResolved 0]))) =
           [ProcessSend p
              (SocketMessage (toIExtHostSocketMessage
                 (last (cd0 # map (\<lambda>(a, t, c). \<lparr> socket = t, initialDataChunk = c \<rparr>) rs))))
              (Some (underlying_socket (socket
                 (last (cd0 # map (\<lambda>(a, t, c). \<lparr> socket = t, initialDataChunk = c \<rparr>) rs)))))] \<and>
         transport_closes (snd (run h s (map (\<lambda>(a, t, c). AcceptReconnection a t c) rs
                            @ [Start sp w, ProcessMessage p ''VSCODE_EXTHOST_IPC_READY'',
                               DrainResolved 0]))) = []"
proof -
  let ?cd = "last (cd0 # map (\<lambda>(a, t, c). \<lparr> socket = t, initialDataChunk = c \<rparr>) rs)"
  let ?recs = "map (\<lambda>(a, t, c). AcceptReconnection a t c) rs"
  let ?s1 = "fst (run h s ?recs)"
  let ?s2 = "fst (start h ?s1 sp w)"
  note rr = run_reconnections[OF assms(1), of h rs]
  have s1: "extensionHostProcess ?s1 = None" "connectionData ?s1 = Some ?cd"
    "pendingSends ?s1 = []" "canSendSocket ?s1"
    using rr assms by (simp_all add: last_Some_map del: last.simps)
  have s2: "?s2 = ?s1\<lparr> extensionHostProcess := Some p,
                       processListeners := processListeners ?s1 @ [p],
                       messageListeners := messageListeners ?s1 @ [p] \<rparr>"
    by (rule start_direct(4)[OF s1(4) assms(5) assms(6)])
  have "extensionHostProcess ?s2 = Some p" "p \<in> set (messageListeners ?s2)"
    "connectionData ?s2 = Some ?cd" "pendingSends ?s2 = []"
    unfolding s2 using s1 by simp_all
  note tail = ready_then_drain[OF this, of h]
  have split: "run h s (?recs @ [Start sp w, ProcessMessage p ''VSCODE_EXTHOST_IPC_READY'', DrainResolved 0])
      = (fst (run h ?s2 [ProcessMessage p ''VSCODE_EXTHOST_IPC_READY'', DrainResolved 0]),
         snd (run h s ?recs) @ snd (start h ?s1 sp w)
           @ snd (run h ?s2 [ProcessMessage p ''VSCODE_EXTHOST_IPC_READY'', DrainResolved 0]))"
    by (simp add: run_append run_Cons del: run.simps(2))
  show ?thesis
    unfolding split using rr start_quiet[of h ?s1 sp w] tail
    by (simp add: trace_simps)
qed

lemma run_steps:
  "snd (run h s evs) = concat (map (\<lambda>t. snd (snd t)) (steps h s evs))"
  by (induction evs arbitrary: s) (simp_all add: run_Cons del: run.simps(2))

lemma step_handoff_event:
  assumes "ProcessSend p (SocketMessage m) (Some n) \<in> set (snd (step h s ev))"
  shows "\<exists>i cd. ev = DrainResolved i \<and> i < length (pendingSends s) \<and>
                 pendingSends s ! i = (p, cd) \<and>
                 m = toIExtHostSocketMessage cd \<and> n = underlying_socket (socket cd) \<and>
                 snd (step h s ev) =
                   [DrainCompleted (socket cd), ProcessSend p (SocketMessage m) (Some n)]"
proof (cases ev)
  case (Start sp w)
  then show ?thesis
    using assms start_quiet[of h s sp w] by (simp add: sends_Nil_no_ProcessSend)
next
  case (DrainResolved i)
  show ?thesis
  proof (cases "i < length (pendingSends s)")
    case True
    obtain q cd where x: "pendingSends s ! i = (q, cd)" by (cases "pendingSends s ! i")
    from assms DrainResolved True x have "q = p" "m = toIExtHostSocketMessage cd"
      "n = underlying_socket (socket cd)"
      by (simp_all add: sendSocketToExtensionHost_resume_def)
    with DrainResolved True x show ?thesis
      by (simp add: sendSocketToExtensionHost_resume_def)
  next
    case False
    with assms DrainResolved show ?thesis by simp
  qed
qed (use assms in \<open>auto simp: handler_defs log_def logError_def onConsoleMessage_def
       split: option.splits if_splits\<close>)

lemma step_pending_origin:
  assumes "x \<in> set (pendingSends (fst (step h s ev)))"
  shows "x \<in> set (pendingSends s) \<or> SocketDrain (socket (snd x)) \<in> set (snd (step h s ev))"
proof (cases ev)
  case (Start sp w)
  then show ?thesis
    using assms start_fields[of h s sp w] by simp
next
  case (DrainResolved i)
  then show ?thesis
    using assms by (auto dest: in_set_takeD in_set_dropD split: if_splits)
next
  case (DrainRejected i)
  then show ?thesis
    using assms by (auto dest: in_set_takeD in_set_dropD split: if_splits)
qed (use assms in \<open>auto simp: handler_defs split: option.splits if_splits\<close>)

lemma steps_handoff:
  assumes "\<forall>x \<in> set (pendingSends s). \<exists>t \<in> set seen. SocketDrain (socket (snd x)) \<in> set (snd (snd t))"
    and "steps h s evs = before @ (s1, ev, out) # after"
    and "ProcessSend p (SocketMessage m) (Some n) \<in> set out"
  shows "\<exists>i cd. ev = DrainResolved i \<and> i < length (pendingSends s1) \<and>
                 pendingSends s1 ! i = (p, cd) \<and>
                 m = toIExtHostSocketMessage cd \<and> n = underlying_socket (socket cd) \<and>
                 out = [DrainCompleted (socket cd), ProcessSend p (SocketMessage m) (Some n)] \<and>
                 (\<exists>t \<in> set (seen @ before). SocketDrain (socket cd) \<in> set (snd (snd t)))"
  using assms
proof (induction evs arbitrary: s seen before)
  case Nil
  then show ?case by simp
next
  case (Cons ev0 evs)
  show ?case
  proof (cases before)
    case Nil
    with Cons.prems(2) have e: "s1 = s" "ev = ev0" "out = snd (step h s ev0)" by auto
    from step_handoff_event[of p m n h s ev0] Cons.prems(3) e
    obtain i cd where i: "ev = DrainResolved i" "i < length (pendingSends s1)"
      "pendingSends s1 ! i = (p, cd)" "m = toIExtHostSocketMessage cd"
      "n = underlying_socket (socket cd)"
      "out = [DrainCompleted (socket cd), ProcessSend p (SocketMessage m) (Some n)]"
      by auto
    from i(2) i(3) have "(p, cd) \<in> set (pendingSends s1)"
      by (metis nth_mem)
    with e(1) have mem: "(p, cd) \<in> set (pendingSends s)" by simp
    from bspec[OF Cons.prems(1) mem]
    have "\<exists>t \<in> set seen. SocketDrain (socket cd) \<in> set (snd (snd t))" by simp
    with i Nil show ?thesis by auto
  next
    case (Cons b before')
    with Cons.prems(2) have b: "b = (s, ev0, snd (step h s ev0))"
      and rest: "steps h (fst (step h s ev0)) evs = before' @ (s1, ev, out) # after"
      by simp_all
    have inv: "\<forall>x \<in> set (pendingSends (fst (step h s ev0))).
                 \<exists>t \<in> set (seen @ [b]). SocketDrain (socket (snd x)) \<in> set (snd (snd t))"
    proof
      fix x
      assume "x \<in> set (pendingSends (fst (step h s ev0)))"
      from step_pending_origin[OF this]
      show "\<exists>t \<in> set (seen @ [b]). SocketDrain (socket (snd x)) \<in> set (snd (snd t))"
        using Cons.prems(1) b by auto
    qed
    from Cons.IH[OF inv rest Cons.prems(3)] Cons show ?thesis by simp
  qed
qed

text \<open>
  C5. In every run of a Session, a socket message is sent to the worker process
  together with a socket handle only in the step that answers the resolution of an
  awaited drain: the event is the resolution of the \<open>socketDrain\<close> a suspended
  \<open>_sendSocketToExtensionHost\<close> is waiting for, the message describes the
  ConnectionData of that call, the handle is the \<open>net.Socket\<close> of its Transport, and the
  drain of that Transport was called in an earlier step. So the socket handoff never
  precedes the completion of the drain; a rejected drain, like any other event, sends
  no socket.
\<close>

theorem handoff_after_drain:
  assumes "steps h (fst (new_ExtensionHostConnection h token address sock chunk es)) evs =
             before @ (s, ev, out) # after"
    and "ProcessSend p (SocketMessage m) (Some n) \<in> set out"
  shows "\<exists>i cd. ev = DrainResolved i \<and> i < length (pendingSends s) \<and>
                 pendingSends s ! i = (p, cd) \<and>
                 m = toIExtHostSocketMessage cd \<and> n = underlying_socket (socket cd) \<and>
                 out = [DrainCompleted (socket cd), ProcessSend p (SocketMessage m) (Some n)] \<and>
                 (\<exists>s' ev' out'. (s', ev', out') \<in> set before \<and>
                                 SocketDrain (socket cd) \<in> set out')"
proof -
  let ?s = "fst (new_ExtensionHostConnection h token address sock chunk es)"
  have "\<forall>x \<in> set (pendingSends ?s). \<exists>t \<in> set []. SocketDrain (socket (snd x)) \<in> set (snd (snd t))"
    by (simp add: new_ExtensionHostConnection_def Let_def)
  from steps_handoff[OF this assms]
  show ?thesis by fastforce
qed

theorem handoff_after_drain_witness:
  "steps linux_host
     (fst (new_ExtensionHostConnection linux_host ''0123456789abcdef'' ''10.0.0.1'' transport0
             [104, 105] server_environment))
     [Start some_params good_world, ProcessMessage worker ''VSCODE_EXTHOST_IPC_READY'',
      DrainResolved 0] =
     [(session0, Start some_params good_world, snd (start linux_host session0 some_params good_world)),
      (fst (start linux_host session0 some_params good_world),
       ProcessMessage worker ''VSCODE_EXTHOST_IPC_READY'', [SocketDrain transport0])]
     @ (fst (run linux_host session0
               [Start some_params good_world, ProcessMessage worker ''VSCODE_EXTHOST_IPC_READY'']),
        DrainResolved 0,
        [DrainCompleted transport0,
         ProcessSend worker
           (SocketMessage (toIExtHostSocketMessage \<lparr> socket = transport0, initialDataChunk = [104, 105] \<rparr>))
           (Some 0)]) # [] \<and>
   pendingSends (fst (run linux_host session0
               [Start some_params good_world, ProcessMessage worker ''VSCODE_EXTHOST_IPC_READY''])) ! 0 =
     (worker, \<lparr> socket = transport0, initialDataChunk = [104, 105] \<rparr>) \<and>
   (\<exists>i cd. DrainResolved 0 = DrainResolved i \<and>
      i < length (pendingSends (fst (run linux_host session0
               [Start some_params good_world, ProcessMessage worker ''VSCODE_EXTHOST_IPC_READY'']))) \<and>
      pendingSends (fst (run linux_host session0
               [Start some_params good_world, ProcessMessage worker ''VSCODE_EXTHOST_IPC_READY''])) ! i =
        (worker, cd) \<and>
      toIExtHostSocketMessage \<lparr> socket = transport0, initialDataChunk = [104, 105] \<rparr> =
        toIExtHostSocketMessage cd \<and>
      0 = underlying_socket (socket cd))"
proof -
  let ?cd = "\<lparr> socket = transport0, initialDataChunk = [104, 105] \<rparr>"
  let ?s1 = "fst (start linux_host session0 some_params good_world)"
  let ?ready = "ProcessMessage worker ''VSCODE_EXTHOST_IPC_READY''"
  let ?s2 = "fst (run linux_host session0 [Start some_params good_world, ?ready])"
  let ?send = "ProcessSend worker (SocketMessage (toIExtHostSocketMessage ?cd)) (Some 0)"
  have c: "canSendSocket session0" "connectionData session0 = Some ?cd"
    "pendingSends session0 = []" "messageListeners session0 = []"
    by (simp_all add: session0_def new_ExtensionHostConnection_def Let_def linux_host_def)
  have w: "nlsConfig good_world = Some ''{}''" "forked good_world = Some worker"
    by (simp_all add: good_world_def)
  have s1: "?s1 = session0\<lparr> extensionHostProcess := Some worker,
                            processListeners := processListeners session0 @ [worker],
                            messageListeners := messageListeners session0 @ [worker] \<rparr>"
    by (rule start_direct(4)[OF c(1) w(1) w(2)])
  have u: "underlying_socket transport0 = 0"
    by (simp add: underlying_socket_def transport0_def)
  have m: "step linux_host ?s1 ?ready =
             (?s1\<lparr> messageListeners := [], pendingSends := [(worker, ?cd)], connectionData := None \<rparr>,
              [SocketDrain transport0])"
    unfolding s1 using c by (simp add: handler_defs onConsoleMessage_def)
  have s2: "?s2 = ?s1\<lparr> messageListeners := [], pendingSends := [(worker, ?cd)], connectionData := None \<rparr>"
    by (simp add: run_Cons m del: run.simps(2) step.simps(6))
  have p: "pendingSends ?s2 ! 0 = (worker, ?cd)"
    unfolding s2 by simp
  have h: "steps linux_host
     (fst (new_ExtensionHostConnection linux_host ''0123456789abcdef'' ''10.0.0.1'' transport0
             [104, 105] server_environment))
     [Start some_params good_world, ?ready, DrainResolved 0] =
     [(session0, Start some_params good_world, snd (start linux_host session0 some_params good_world)),
      (?s1, ?ready, [SocketDrain transport0])]
     @ (?s2, DrainResolved 0, [DrainCompleted transport0, ?send]) # []"
    unfolding session0_def[symmetric] s2
    using m u by (simp add: sendSocketToExtensionHost_resume_def del: step.simps(6))
  have i: "?send \<in> set [DrainCompleted transport0, ?send]"
    by simp
  from handoff_after_drain[OF h i] p h show ?thesis
    by (simp only: effect.inject ipc_message.inject option.inject simp_thms) blast
qed

text \<open>
  The window between the spawn and the ready message is different: a reconnection
  that arrives there is sent to the worker at once, and the ConnectionData the Session
  held is still sent when the worker signals readiness, so both are delivered.
\<close>

lemma reconnection_between_spawn_and_ready:
  assumes "extensionHostProcess s = Some p" and "p \<in> set (messageListeners s)"
    and "connectionData s = Some cd0" and "pendingSends s = []"
  shows "sends (snd (run h s [AcceptReconnection a t c,
                              ProcessMessage p ''VSCODE_EXTHOST_IPC_READY'',
                              DrainResolved 0, DrainResolved 0])) =
           [ProcessSend p (SocketMessage (toIExtHostSocketMessage \<lparr> socket = t, initialDataChunk = c \<rparr>))
              (Some (underlying_socket t)),
            ProcessSend p (SocketMessage (toIExtHostSocketMessage cd0))
              (Some (underlying_socket (socket cd0)))]"
  using assms
  by (simp add: handler_defs onConsoleMessage_def sendSocketToExtensionHost_resume_def log_def
        trace_simps)

text \<open>
  C3, as the code has it. For every sequence of reconnections that arrive before the
  worker process is spawned, only the ConnectionData of the most recent one (the
  initial ConnectionData when there is none) is delivered to the worker once it is
  ready. The ConnectionData it replaces is dropped: no Transport is closed or disposed.
\<close>

theorem latest_reconnection_delivered:
  assumes "\<not> isWindows h \<or> \<not> socket_path_set es"
    and "nlsConfig w \<noteq> None" and "forked w = Some p"
  shows "sends (snd (run h (fst (new_ExtensionHostConnection h token a0 t0 c0 es))
                      (map (\<lambda>(a, t, c). AcceptReconnection a t c) rs
                         @ [Start sp w, ProcessMessage p ''VSCODE_EXTHOST_IPC_READY'',
                            DrainResolved 0]))) =
           [ProcessSend p
              (SocketMessage (toIExtHostSocketMessage
                 (last (\<lparr> socket = t0, initialDataChunk = c0 \<rparr>
                          # map (\<lambda>(a, t, c). \<lparr> socket = t, initialDataChunk = c \<rparr>) rs))))
              (Some (underlying_socket (socket
                 (last (\<lparr> socket = t0, initialDataChunk = c0 \<rparr>
                          # map (\<lambda>(a, t, c). \<lparr> socket = t, initialDataChunk = c \<rparr>) rs)))))] \<and>
         transport_closes (snd (run h (fst (new_ExtensionHostConnection h token a0 t0 c0 es))
                      (map (\<lambda>(a, t, c). AcceptReconnection a t c) rs
                         @ [Start sp w, ProcessMessage p ''VSCODE_EXTHOST_IPC_READY'',
                            DrainResolved 0]))) = []"
proof -
  let ?s = "fst (new_ExtensionHostConnection h token a0 t0 c0 es)"
  from assms(2) obtain n where n: "nlsConfig w = Some n" by auto
  have s: "extensionHostProcess ?s = None"
    "connectionData ?s = Some \<lparr> socket = t0, initialDataChunk = c0 \<rparr>"
    "pendingSends ?s = []" "canSendSocket ?s"
    using assms(1) by (simp_all add: new_ExtensionHostConnection_def Let_def)
  show ?thesis
    by (rule reconnections_then_ready[OF s n assms(3)])
qed

theorem latest_reconnection_delivered_witness:
  "\<not> isWindows linux_host \<and>
   nlsConfig good_world \<noteq> None \<and> forked good_world = Some worker \<and>
   sends (snd (run linux_host
                 (fst (new_ExtensionHostConnection linux_host ''0123456789abcdef'' ''10.0.0.1''
                         transport0 [104, 105] server_environment))
                 [AcceptReconnection ''10.0.0.2'' transport1 [7],
                  AcceptReconnection ''10.0.0.3'' (Plain (NodeSocket 2)) [],
                  Start some_params good_world,
                  ProcessMessage worker ''VSCODE_EXTHOST_IPC_READY'', DrainResolved 0])) =
     [ProcessSend worker
        (SocketMessage (toIExtHostSocketMessage \<lparr> socket = Plain (NodeSocket 2), initialDataChunk = [] \<rparr>))
        (Some 2)]"
proof -
  have l: "\<not> isWindows linux_host"
    by (simp add: linux_host_def)
  then have a: "\<not> isWindows linux_host \<or> \<not> socket_path_set server_environment"
    by simp
  have b: "nlsConfig good_world \<noteq> None" and c: "forked good_world = Some worker"
    by (simp_all add: good_world_def)
  show ?thesis
    using l b c
      latest_reconnection_delivered[OF a b c, where token = "''0123456789abcdef''"
        and ?a0.0 = "''10.0.0.1''" and ?t0.0 = transport0 and ?c0.0 = "[104, 105]"
        and sp = some_params
        and rs = "[(''10.0.0.2'', transport1, [7]), (''10.0.0.3'', Plain (NodeSocket 2), [])]"]
    by (simp add: underlying_socket_def)
qed

text \<open>
  C3 as stated fails: the reconnection before the spawn supersedes the Transport the
  Session was constructed with, and the run that delivers the new ConnectionData to
  the ready worker closes no Transport at all, where the claim has one close.
\<close>

theorem latest_reconnection_delivered_counterexample:
  "connectionData session0 = Some \<lparr> socket = transport0, initialDataChunk = [104, 105] \<rparr> \<and>
   sends (snd (run linux_host session0
                 [AcceptReconnection ''10.0.0.2'' transport1 [7], Start some_params good_world,
                  ProcessMessage worker ''VSCODE_EXTHOST_IPC_READY'', DrainResolved 0])) =
     [ProcessSend worker
        (SocketMessage (toIExtHostSocketMessage \<lparr> socket = transport1, initialDataChunk = [7] \<rparr>))
        (Some 1)] \<and>
   transport0 \<notin> set (transport_closes (snd (run linux_host session0
                 [AcceptReconnection ''10.0.0.2'' transport1 [7], Start some_params good_world,
                  ProcessMessage worker ''VSCODE_EXTHOST_IPC_READY'', DrainResolved 0]))) \<and>
   length (transport_closes (snd (run linux_host session0
                 [AcceptReconnection ''10.0.0.2'' transport1 [7], Start some_params good_world,
                  ProcessMessage worker ''VSCODE_EXTHOST_IPC_READY'', DrainResolved 0]))) \<noteq> 1"
proof -
  have s: "extensionHostProcess session0 = None"
    "connectionData session0 = Some \<lparr> socket = transport0, initialDataChunk = [104, 105] \<rparr>"
    "pendingSends session0 = []" "canSendSocket session0"
    by (simp_all add: session0_def new_ExtensionHostConnection_def Let_def linux_host_def)
  have w: "nlsConfig good_world = Some ''{}''" "forked good_world = Some worker"
    by (simp_all add: good_world_def)
  show ?thesis
    using s(2)
      reconnections_then_ready[OF s w, where h = linux_host and sp = some_params
        and rs = "[(''10.0.0.2'', transport1, [7])]"]
    by (simp add: underlying_socket_def transport1_def)
qed

end
